theory Spec2Isabelle
  imports Complex_Main
begin

section \<open>Values and errors\<close>

text \<open>
  The Python sources compute on NumPy and TensorFlow arrays of floating-point numbers.
  A finite floating-point value is idealised as a \<open>real\<close>: rounding within the range
  of the format is not modelled. Every exception the modelled code can raise is a value
  of \<open>error\<close>, and a function that can raise returns \<open>error + 'a\<close> with \<open>Inl\<close> for
  the exception.
\<close>

datatype error =
    KeyError
  | IndexError
  | ValueError string
  | InvalidArgumentError
  | Cv2Error
  | Unsupported

text \<open>
  \<open>KeyError\<close>, \<open>IndexError\<close> and \<open>ValueError\<close> are Python's (the string is the
  message, abbreviated), \<open>InvalidArgumentError\<close> is TensorFlow's and \<open>Cv2Error\<close> is
  OpenCV's \<open>cv2.error\<close>. \<open>Unsupported\<close> is not an exception of the program: the model
  returns it for an array whose number of axes is not the one the docstrings of the source
  give (a feature map with four axes, a class-score matrix with two, a heatmap with two),
  where the behaviour of the libraries is outside the model.

  An array is its shape and its elements in row-major order, as NumPy and TensorFlow
  store it. A well-formed array has as many elements as its shape says.
\<close>

record 'a tensor =
  shape :: "nat list"
  data :: "'a list"

definition well_formed :: "'a tensor \<Rightarrow> bool" where
  "well_formed t = (length (data t) = prod_list (shape t))"

text \<open>
  A float is a finite number, an infinity or NaN. TensorFlow computes the heatmap in
  single precision. \<open>float32\<close> gives the single-precision value of an exact result
  as far as the range of the format goes: a result of magnitude \<open>2^128 - 2^103\<close> or more
  (what rounds beyond the largest finite value) is an infinity, and a result of
  magnitude \<open>2^-150\<close> or less (what rounds below the smallest one) is zero. The sign
  of a zero is not kept.
\<close>

datatype fl = Fin real | PInf | NInf | NaN

definition float32_huge :: real where
  "float32_huge = 2 ^ 128 - 2 ^ 103"

definition float32_tiny :: real where
  "float32_tiny = 1 / 2 ^ 150"

definition float32 :: "real \<Rightarrow> fl" where
  "float32 x =
     (if float32_huge \<le> x then PInf
      else if x \<le> - float32_huge then NInf
      else if \<bar>x\<bar> \<le> float32_tiny then Fin 0
      else Fin x)"

text \<open>
  The larger of two floats, and their quotient, with the cases of IEEE 754: NaN gives
  NaN, \<open>0 / 0\<close> and an infinity over an infinity are NaN, a non-zero number over zero
  is an infinity, and a finite number over an infinity is zero.
\<close>

fun fl_max :: "fl \<Rightarrow> fl \<Rightarrow> fl" where
  "fl_max NaN v = NaN"
| "fl_max u NaN = NaN"
| "fl_max PInf v = PInf"
| "fl_max u PInf = PInf"
| "fl_max NInf v = v"
| "fl_max u NInf = u"
| "fl_max (Fin x) (Fin y) = Fin (max x y)"

fun tf_divide :: "fl \<Rightarrow> fl \<Rightarrow> fl" where
  "tf_divide NaN v = NaN"
| "tf_divide u NaN = NaN"
| "tf_divide (Fin x) (Fin y) =
     (if y = 0 then (if x = 0 then NaN else if 0 < x then PInf else NInf) else Fin (x / y))"
| "tf_divide (Fin x) v = Fin 0"
| "tf_divide PInf (Fin y) = (if 0 \<le> y then PInf else NInf)"
| "tf_divide NInf (Fin y) = (if 0 \<le> y then NInf else PInf)"
| "tf_divide u v = NaN"

definition bind :: "error + 'a \<Rightarrow> ('a \<Rightarrow> error + 'b) \<Rightarrow> error + 'b" where
  "bind m f = (case m of Inl e \<Rightarrow> Inl e | Inr x \<Rightarrow> f x)"

section \<open>Text helpers of \<open>explanation_utils.py\<close> and \<open>model_utils.py\<close>\<close>

text \<open>
  Python's \<open>int(x)\<close> on a finite float truncates towards zero, and an f-string prints
  an \<open>int\<close> in decimal with a leading minus sign when it is negative.
\<close>

definition py_int :: "real \<Rightarrow> int" where
  "py_int x = (if 0 \<le> x then \<lfloor>x\<rfloor> else \<lceil>x\<rceil>)"

fun str_nat :: "nat \<Rightarrow> string" where
  "str_nat n = (if n < 10 then [''0123456789'' ! n]
                else str_nat (n div 10) @ [''0123456789'' ! (n mod 10)])"

definition str_int :: "int \<Rightarrow> string" where
  "str_int i = (if i < 0 then CHR ''-'' # str_nat (nat (- i)) else str_nat (nat i))"

text \<open>
  \<open>d[k]\<close> raises \<open>KeyError\<close> on a missing key; \<open>d.get(k, default)\<close> returns the
  default instead. The default is an ordinary argument, evaluated before the call.
\<close>

definition subscript :: "('k \<rightharpoonup> 'v) \<Rightarrow> 'k \<Rightarrow> error + 'v" where
  "subscript d k = (case d k of None \<Rightarrow> Inl KeyError | Some v \<Rightarrow> Inr v)"

definition dict_get :: "('k \<rightharpoonup> 'v) \<Rightarrow> 'k \<Rightarrow> 'v \<Rightarrow> 'v" where
  "dict_get d k dflt = (case d k of None \<Rightarrow> dflt | Some v \<Rightarrow> v)"

subsection \<open>\<open>explain_prediction_simple\<close>\<close>

definition class_explanations :: "int \<rightharpoonup> string" where
  "class_explanations = map_of
    [(0, ''The computer looked at your eye photo and did not find any signs of disease. Your blood vessels look clear and healthy.''),
     (1, ''The computer found some early changes in your eye. These are small signs that need to be watched.''),
     (2, ''The computer found changes in your eye that need attention. There are signs of blood vessel damage.''),
     (3, ''The computer found serious changes in your eye. The blood vessels show significant damage that needs treatment.''),
     (4, ''The computer found advanced changes in your eye. There is serious blood vessel damage that needs immediate treatment.'')]"

definition confidence_sentence :: "real \<Rightarrow> string" where
  "confidence_sentence confidence =
     [CHR 0x0A, CHR 0x0A] @ ''The computer is '' @ str_int (py_int (confidence * 100))
       @ ''% confident about this finding.''"

text \<open>The argument \<open>heatmap_focus\<close> is accepted and never read, as in the source.\<close>

definition explain_prediction_simple :: "int \<Rightarrow> real \<Rightarrow> string \<Rightarrow> error + string" where
  "explain_prediction_simple predicted_class confidence heatmap_focus =
     (case subscript class_explanations 0 of
        Inl e \<Rightarrow> Inl e
      | Inr dflt \<Rightarrow>
          Inr (dict_get class_explanations predicted_class dflt @ confidence_sentence confidence))"

subsection \<open>\<open>get_recommendation\<close>\<close>

text \<open>
  The dictionary the source returns has the keys \<open>nurse\<close>, \<open>patient\<close> and \<open>urgency\<close>
  of the table entry and the key \<open>note\<close> (the field \<open>note_entry\<close>) that the function stores into it before
  returning. The table is built anew on every call, so the store is not visible to a
  later call.
\<close>

record recommendation =
  nurse :: string
  patient :: string
  urgency :: string
  note_entry :: "string option"

definition recommendations :: "int \<rightharpoonup> recommendation" where
  "recommendations = map_of
    [(0, \<lparr>nurse = ''Result indicates no diabetic retinopathy. Routine follow-up recommended.'',
          patient = ''Your eyes look healthy. Come back for another screening in 1 year.'',
          urgency = ''routine'', note_entry = None\<rparr>),
     (1, \<lparr>nurse = ''Mild diabetic retinopathy detected. Recommend follow-up in 6-12 months.'',
          patient = ''Early signs detected. See an eye doctor within 6-12 months to monitor your eyes.'',
          urgency = ''monitor'', note_entry = None\<rparr>),
     (2, \<lparr>nurse = ''Moderate diabetic retinopathy. Refer to eye specialist within 3-6 months.'',
          patient = ''Your eyes need attention. See an eye doctor within 3-6 months for treatment.'',
          urgency = ''refer'', note_entry = None\<rparr>),
     (3, \<lparr>nurse = ''Severe diabetic retinopathy. Urgent referral to eye specialist within 1-2 months.'',
          patient = ''Your eyes need urgent care. See an eye doctor within 1-2 months. Treatment can protect your vision.'',
          urgency = ''urgent'', note_entry = None\<rparr>),
     (4, \<lparr>nurse = ''Proliferative diabetic retinopathy. Immediate referral to eye specialist (within 2 weeks).'',
          patient = ''Your eyes need immediate attention. See an eye doctor within 2 weeks. Early treatment is very important.'',
          urgency = ''immediate'', note_entry = None\<rparr>)]"

definition confidence_note :: "real \<Rightarrow> string" where
  "confidence_note confidence =
     (if confidence < 0.7 then ''Low confidence - recommend manual review by specialist''
      else if confidence < 0.85 then ''Medium confidence - consider additional screening''
      else ''High confidence result'')"

definition get_recommendation :: "int \<Rightarrow> real \<Rightarrow> error + recommendation" where
  "get_recommendation predicted_class confidence =
     (case subscript recommendations 0 of
        Inl e \<Rightarrow> Inl e
      | Inr dflt \<Rightarrow>
          Inr ((dict_get recommendations predicted_class dflt)
                 \<lparr>note_entry := Some (confidence_note confidence)\<rparr>))"

section \<open>Grad-CAM: \<open>get_gradcam_heatmap\<close> of \<open>explanation_utils.py\<close>\<close>

subsection \<open>The classifier\<close>

text \<open>
  The Keras model is a collaborator of the program, not part of it. The model of it has
  what \<open>get_gradcam_heatmap\<close> uses: the list \<open>model.layers\<close>, each layer with its
  \<open>name\<close> and its \<open>output_shape\<close> (a tuple whose batch entry is \<open>None\<close>);
  \<open>grad_model\<close>, the forward pass of \<open>keras.Model(inputs, [layer output, model output])\<close>
  for the layer of a given name, which returns the feature map \<open>conv_outputs\<close> and the
  class scores \<open>predictions\<close>; and \<open>tape_gradient\<close>, the gradient that the tape
  recorded for the scores of one class with respect to the feature map, \<open>None\<close> when
  the tape has no path between them. The type \<open>'i\<close> is the type of input images.
\<close>

record layer =
  layer_name :: string
  output_shape :: "nat option list"

record 'i classifier =
  layers :: "layer list"
  grad_model :: "string \<Rightarrow> 'i \<Rightarrow> real tensor \<times> real tensor"
  tape_gradient :: "string \<Rightarrow> 'i \<Rightarrow> nat \<Rightarrow> real tensor option"

subsection \<open>Lines 27 to 37: the layer\<close>

text \<open>
  The loop over \<open>reversed(model.layers)\<close> stops at the first layer whose output shape
  has four entries; when there is none, \<open>last_conv_layer_name\<close> stays \<open>None\<close>.
  \<open>model.get_layer(name)\<close> is Keras's: it raises \<open>ValueError\<close> for the name \<open>None\<close>
  and for a name that no layer has, and returns the first layer of that name otherwise.
\<close>

definition find_last_conv_layer :: "layer list \<Rightarrow> string option" where
  "find_last_conv_layer ls =
     map_option layer_name (find (\<lambda>l. length (output_shape l) = 4) (rev ls))"

definition get_layer :: "layer list \<Rightarrow> string option \<Rightarrow> error + layer" where
  "get_layer ls name =
     (case name of
        None \<Rightarrow> Inl (ValueError ''Provide either a layer name or layer index at get_layer.'')
      | Some n \<Rightarrow>
          (case find (\<lambda>l. layer_name l = n) ls of
             None \<Rightarrow> Inl (ValueError (''No such layer: '' @ n))
           | Some l \<Rightarrow> Inr l))"

subsection \<open>Lines 42 to 44: the class\<close>

text \<open>
  \<open>t[0]\<close> on a tensor takes the first slice along the first axis and raises when
  there is none. \<open>tf.argmax\<close> of a vector scans it and keeps the first position of the
  largest value (``in case of identity returns the smallest index'' in TensorFlow's
  words); it rejects an empty vector. \<open>predictions[:, c]\<close> accepts an index from
  \<open>-K\<close> to \<open>K - 1\<close> for \<open>K\<close> classes, a negative one counting from the end.
\<close>

definition index0 :: "'a tensor \<Rightarrow> error + 'a tensor" where
  "index0 t =
     (case shape t of
        [] \<Rightarrow> Inl InvalidArgumentError
      | b # s \<Rightarrow>
          if b = 0 then Inl InvalidArgumentError
          else Inr \<lparr>shape = s, data = take (prod_list s) (data t)\<rparr>)"

fun argmax_from :: "nat \<Rightarrow> real \<Rightarrow> nat \<Rightarrow> real list \<Rightarrow> nat" where
  "argmax_from best_i best_v i [] = best_i"
| "argmax_from best_i best_v i (x # xs) =
     (if best_v < x then argmax_from i x (Suc i) xs
      else argmax_from best_i best_v (Suc i) xs)"

definition tf_argmax :: "real list \<Rightarrow> error + nat" where
  "tf_argmax xs =
     (case xs of [] \<Rightarrow> Inl InvalidArgumentError | x # rest \<Rightarrow> Inr (argmax_from 0 x 1 rest))"

definition select_class :: "real tensor \<Rightarrow> int option \<Rightarrow> error + nat" where
  "select_class predictions pred_class =
     (case shape predictions of
        [b, k] \<Rightarrow>
          (case pred_class of
             None \<Rightarrow> bind (index0 predictions) (\<lambda>row. tf_argmax (data row))
           | Some c \<Rightarrow>
               (let j = (if c < 0 then c + int k else c)
                in if 0 \<le> j \<and> j < int k then Inr (nat j) else Inl InvalidArgumentError))
      | _ \<Rightarrow> Inl Unsupported)"

subsection \<open>Lines 47 to 55: the weighted sum of the feature map\<close>

text \<open>
  \<open>tf.reduce_mean(grads, axis=(0, 1, 2))\<close> averages a tensor of shape \<open>[b, h, w, c]\<close>
  over its first three axes: one mean per channel, over \<open>b * h * w\<close> entries. (When
  \<open>b * h * w = 0\<close> TensorFlow's means are NaN; then either the batch is empty and
  \<open>conv_outputs[0]\<close> raises, or the feature map has no pixel and no mean is ever read.)
  A tensor with fewer than three axes has no axis 2.
\<close>

definition reduce_mean_012 :: "real tensor \<Rightarrow> error + real tensor" where
  "reduce_mean_012 grads =
     (case shape grads of
        [b, h, w, c] \<Rightarrow>
          Inr \<lparr>shape = [c],
               data = map (\<lambda>k. (\<Sum>n\<leftarrow>[0..<b * h * w]. data grads ! (n * c + k)) / real (b * h * w))
                          [0..<c]\<rparr>
      | [] \<Rightarrow> Inl InvalidArgumentError
      | [_] \<Rightarrow> Inl InvalidArgumentError
      | [_, _] \<Rightarrow> Inl InvalidArgumentError
      | _ \<Rightarrow> Inl Unsupported)"

text \<open>
  \<open>conv_outputs @ pooled_grads[..., tf.newaxis]\<close> multiplies the \<open>[h, w, c]\<close> feature
  map with the \<open>[c, 1]\<close> column of channel weights: at every pixel the dot product of
  its \<open>c\<close> channel values with the weights. The inner dimensions must agree.
\<close>

definition dot :: "real list \<Rightarrow> real list \<Rightarrow> real" where
  "dot xs ys = sum_list (map2 (*) xs ys)"

definition matmul_newaxis :: "real tensor \<Rightarrow> real tensor \<Rightarrow> error + real tensor" where
  "matmul_newaxis conv pooled =
     (case (shape conv, shape pooled) of
        ([h, w, c], [c']) \<Rightarrow>
          if c = c'
          then Inr \<lparr>shape = [h, w, 1],
                    data = map (\<lambda>p. dot (take c (drop (p * c) (data conv))) (data pooled))
                               [0..<h * w]\<rparr>
          else Inl InvalidArgumentError
      | _ \<Rightarrow> Inl Unsupported)"

definition squeeze :: "'a tensor \<Rightarrow> 'a tensor" where
  "squeeze t = \<lparr>shape = filter (\<lambda>d. d \<noteq> 1) (shape t), data = data t\<rparr>"

definition raw_heatmap :: "real tensor \<Rightarrow> real tensor \<Rightarrow> error + real tensor" where
  "raw_heatmap conv_outputs pooled_grads =
     bind (index0 conv_outputs) (\<lambda>conv0.
     bind (matmul_newaxis conv0 pooled_grads) (\<lambda>heatmap.
     Inr (squeeze heatmap)))"

subsection \<open>Line 58: the normalisation\<close>

text \<open>
  \<open>heatmap = tf.maximum(heatmap, 0) / tf.math.reduce_max(heatmap)\<close>: the right-hand
  side is evaluated before the assignment, so the divisor is the maximum of the weighted
  sum as it is, before clipping. There is no test of the divisor. \<open>raw_heatmap\<close> is
  the exact weighted sum; the tensor that line 58 reads holds its single-precision
  values. The maximum of a tensor without elements is minus infinity in TensorFlow.
\<close>

fun reduce_max :: "fl list \<Rightarrow> fl" where
  "reduce_max [] = NInf"
| "reduce_max (v # vs) = fl_max v (reduce_max vs)"

definition normalize_heatmap :: "real tensor \<Rightarrow> fl tensor" where
  "normalize_heatmap heatmap =
     (let stored = map float32 (data heatmap)
      in \<lparr>shape = shape heatmap,
          data = map (\<lambda>v. tf_divide (fl_max v (Fin 0)) (reduce_max stored)) stored\<rparr>)"

subsection \<open>The function\<close>

text \<open>
  The body of \<open>get_gradcam_heatmap\<close> in three stages, in the order of the source:
  \<open>forward_pass\<close> is lines 27 to 41 (the layer, then \<open>grad_model(image)\<close>),
  \<open>channel_importance\<close> continues to line 50 (the class, the gradient, its mean per
  channel) and returns the feature map with the channel weights, and
  \<open>get_gradcam_heatmap\<close> adds lines 53 to 60.
\<close>

definition forward_pass ::
  "'i classifier \<Rightarrow> 'i \<Rightarrow> string option \<Rightarrow> error + (layer \<times> real tensor \<times> real tensor)" where
  "forward_pass model img last_conv_layer_name =
     (let name = (case last_conv_layer_name of
                    None \<Rightarrow> find_last_conv_layer (layers model)
                  | Some n \<Rightarrow> Some n)
      in bind (get_layer (layers model) name) (\<lambda>l.
         Inr (l, grad_model model (layer_name l) img)))"

definition channel_importance ::
  "'i classifier \<Rightarrow> 'i \<Rightarrow> int option \<Rightarrow> string option \<Rightarrow> error + (real tensor \<times> real tensor)" where
  "channel_importance model img pred_class last_conv_layer_name =
     bind (forward_pass model img last_conv_layer_name) (\<lambda>(l, conv_outputs, predictions).
     bind (select_class predictions pred_class) (\<lambda>c.
     case tape_gradient model (layer_name l) img c of
       None \<Rightarrow> Inl (ValueError ''None values not supported.'')
     | Some grads \<Rightarrow>
         bind (reduce_mean_012 grads) (\<lambda>pooled_grads.
         Inr (conv_outputs, pooled_grads))))"

definition get_gradcam_heatmap ::
  "'i classifier \<Rightarrow> 'i \<Rightarrow> int option \<Rightarrow> string option \<Rightarrow> error + fl tensor" where
  "get_gradcam_heatmap model img pred_class last_conv_layer_name =
     bind (channel_importance model img pred_class last_conv_layer_name)
       (\<lambda>(conv_outputs, pooled_grads).
     bind (raw_heatmap conv_outputs pooled_grads) (\<lambda>heatmap.
     Inr (normalize_heatmap heatmap)))"

subsection \<open>Classifiers for the examples\<close>

text \<open>
  Classifiers on which the functions are run below; the input is of type
  \<open>unit\<close> since none of them looks at it. \<open>const_tensor s v\<close> is the tensor of shape
  \<open>s\<close> with every element \<open>v\<close>.
\<close>

definition const_tensor :: "nat list \<Rightarrow> 'a \<Rightarrow> 'a tensor" where
  "const_tensor s v = \<lparr>shape = s, data = replicate (prod_list s) v\<rparr>"

text \<open>
  \<open>scenario_model\<close>: five classes, one layer with a feature map of shape
  \<open>(7, 7, 32)\<close> whose every activation is 1 and whose gradient is 0.5 everywhere.
\<close>

definition scenario_model :: "unit classifier" where
  "scenario_model =
     \<lparr>layers = [\<lparr>layer_name = ''conv'', output_shape = [None, Some 7, Some 7, Some 32]\<rparr>,
                \<lparr>layer_name = ''dense'', output_shape = [None, Some 5]\<rparr>],
      grad_model = (\<lambda>n i. (const_tensor [1, 7, 7, 32] 1,
                             \<lparr>shape = [1, 5], data = [0.1, 0.3, 0.3, 0.2, 0.1]\<rparr>)),
      tape_gradient = (\<lambda>n i c. Some (const_tensor [1, 7, 7, 32] (1 / 2)))\<rparr>"

text \<open>
  \<open>tiny_model activations g\<close>: a 2 by 2 feature map with one channel and the given
  activations, two classes with equal scores, and the gradient \<open>g\<close> at every entry.
\<close>

definition tiny_model :: "real list \<Rightarrow> real \<Rightarrow> unit classifier" where
  "tiny_model activations g =
     \<lparr>layers = [\<lparr>layer_name = ''conv'', output_shape = [None, Some 2, Some 2, Some 1]\<rparr>,
                \<lparr>layer_name = ''dense'', output_shape = [None, Some 2]\<rparr>],
      grad_model = (\<lambda>n i. (\<lparr>shape = [1, 2, 2, 1], data = activations\<rparr>,
                             \<lparr>shape = [1, 2], data = [0.5, 0.5]\<rparr>)),
      tape_gradient = (\<lambda>n i c. Some (const_tensor [1, 2, 2, 1] g))\<rparr>"

text \<open>
  \<open>class_model\<close>: three classes, the second and the third with the largest score;
  the gradient is 1 everywhere for the second class (index 1) and -1 everywhere for the
  other two.
\<close>

definition class_model :: "unit classifier" where
  "class_model =
     \<lparr>layers = [\<lparr>layer_name = ''conv'', output_shape = [None, Some 2, Some 2, Some 1]\<rparr>,
                \<lparr>layer_name = ''dense'', output_shape = [None, Some 3]\<rparr>],
      grad_model = (\<lambda>n i. (\<lparr>shape = [1, 2, 2, 1], data = [0, 1, 0, 2]\<rparr>,
                             \<lparr>shape = [1, 3], data = [0.1, 0.4, 0.4]\<rparr>)),
      tape_gradient = (\<lambda>n i c. Some (const_tensor [1, 2, 2, 1] (if c = 1 then 1 else - 1)))\<rparr>"

text \<open>\<open>dense_model\<close>: no layer with a four-axis output.\<close>

definition dense_model :: "unit classifier" where
  "dense_model =
     \<lparr>layers = [\<lparr>layer_name = ''flatten'', output_shape = [None, Some 12]\<rparr>,
                \<lparr>layer_name = ''dense'', output_shape = [None, Some 5]\<rparr>],
      grad_model = (\<lambda>n i. (\<lparr>shape = [1, 5], data = [0.2, 0.2, 0.2, 0.2, 0.2]\<rparr>,
                             \<lparr>shape = [1, 5], data = [0.2, 0.2, 0.2, 0.2, 0.2]\<rparr>)),
      tape_gradient = (\<lambda>n i c. Some (const_tensor [1, 5] 0))\<rparr>"

section \<open>The overlay: \<open>overlay_heatmap\<close> of \<open>explanation_utils.py\<close>\<close>

subsection \<open>The NumPy and OpenCV operations of lines 77 to 90\<close>

text \<open>
  \<open>cv2.resize(src, (width, height))\<close> with the default bilinear interpolation, on an
  array with two axes. A destination pixel \<open>d\<close> along an axis reads the source at
  \<open>(d + 0.5) * ssize / dsize - 0.5\<close>: between the two neighbouring source pixels, with
  the fractional part as the weight of the second, and at the border pixel alone where
  the position falls outside. OpenCV rejects an empty source and an empty size.
\<close>

definition resize_coord :: "nat \<Rightarrow> nat \<Rightarrow> nat \<Rightarrow> nat \<times> nat \<times> real" where
  "resize_coord ssize dsize d =
     (let f = (real d + 1 / 2) * (real ssize / real dsize) - 1 / 2;
          s = \<lfloor>f\<rfloor>
      in if s < 0 then (0, 0, 0)
         else if int ssize - 1 \<le> s then (ssize - 1, ssize - 1, 0)
         else (nat s, nat s + 1, f - real_of_int s))"

definition bilinear :: "real list \<Rightarrow> nat \<Rightarrow> nat \<Rightarrow> nat \<Rightarrow> nat \<Rightarrow> nat \<Rightarrow> nat \<Rightarrow> real" where
  "bilinear src r c h w y x =
     (case (resize_coord r h y, resize_coord c w x) of
        ((y0, y1, fy), (x0, x1, fx)) \<Rightarrow>
          (1 - fy) * ((1 - fx) * src ! (y0 * c + x0) + fx * src ! (y0 * c + x1))
          + fy * ((1 - fx) * src ! (y1 * c + x0) + fx * src ! (y1 * c + x1)))"

definition cv2_resize :: "real tensor \<Rightarrow> nat \<times> nat \<Rightarrow> error + real tensor" where
  "cv2_resize src dsize =
     (case dsize of (w, h) \<Rightarrow>
        (case shape src of
           [r, c] \<Rightarrow>
             if r = 0 \<or> c = 0 \<or> w = 0 \<or> h = 0 then Inl Cv2Error
             else Inr \<lparr>shape = [h, w],
                       data = map (\<lambda>p. bilinear (data src) r c h w (p div w) (p mod w))
                                  [0..<h * w]\<rparr>
         | _ \<Rightarrow> Inl Unsupported))"

text \<open>
  \<open>np.uint8(x)\<close> truncates a float towards zero and keeps the low eight bits.
  \<open>cv2.applyColorMap\<close> replaces every byte by the blue, green and red bytes that the
  colormap's table of 256 entries has for it; the colormap is modelled as that table.
  \<open>cv2.cvtColor(_, cv2.COLOR_BGR2RGB)\<close> exchanges the first and the third byte of every
  pixel.
\<close>

type_synonym colormap = "nat \<Rightarrow> nat \<times> nat \<times> nat"

definition np_uint8 :: "real tensor \<Rightarrow> nat tensor" where
  "np_uint8 t = \<lparr>shape = shape t, data = map (\<lambda>x. nat (py_int x mod 256)) (data t)\<rparr>"

definition applyColorMap :: "nat tensor \<Rightarrow> colormap \<Rightarrow> nat tensor" where
  "applyColorMap src colormap =
     \<lparr>shape = shape src @ [3],
      data = concat (map (\<lambda>v. case colormap v of (b, g, r) \<Rightarrow> [b, g, r]) (data src))\<rparr>"

fun swap_first_third :: "'a list \<Rightarrow> 'a list" where
  "swap_first_third (b # g # r # rest) = r # g # b # swap_first_third rest"
| "swap_first_third xs = xs"

definition cvtColor_BGR2RGB :: "nat tensor \<Rightarrow> nat tensor" where
  "cvtColor_BGR2RGB src = \<lparr>shape = shape src, data = swap_first_third (data src)\<rparr>"

text \<open>
  Arithmetic with a scalar works element by element and gives a new array of floats.
  \<open>a.max()\<close> raises on an array without elements.
\<close>

definition times_scalar :: "real tensor \<Rightarrow> real \<Rightarrow> real tensor" where
  "times_scalar t k = \<lparr>shape = shape t, data = map (\<lambda>x. x * k) (data t)\<rparr>"

definition divide_scalar :: "real tensor \<Rightarrow> real \<Rightarrow> real tensor" where
  "divide_scalar t k = \<lparr>shape = shape t, data = map (\<lambda>x. x / k) (data t)\<rparr>"

definition as_float :: "nat tensor \<Rightarrow> real tensor" where
  "as_float t = \<lparr>shape = shape t, data = map real (data t)\<rparr>"

definition np_max :: "real tensor \<Rightarrow> error + real" where
  "np_max t =
     (if data t = [] then Inl (ValueError ''zero-size array to reduction operation maximum'')
      else Inr (Max (set (data t))))"

text \<open>
  The sum of two arrays follows NumPy's broadcasting. The shapes are aligned at their
  last axes; two extents fit when they are equal or one of them is 1, and a missing
  axis counts as 1. The functions below work on reversed shapes, last axis first:
  \<open>broadcast_shapes\<close> gives the shape of the result, \<open>unravel\<close> the index of a flat
  position of the result along each axis, and \<open>ravel\<close> the flat position of that
  index in an operand, where an axis of extent 1 is read at 0.
\<close>

fun broadcast_shapes :: "nat list \<Rightarrow> nat list \<Rightarrow> nat list option" where
  "broadcast_shapes [] ys = Some ys"
| "broadcast_shapes (x # xs) [] = Some (x # xs)"
| "broadcast_shapes (x # xs) (y # ys) =
     (if x = y \<or> y = 1 then map_option ((#) x) (broadcast_shapes xs ys)
      else if x = 1 then map_option ((#) y) (broadcast_shapes xs ys)
      else None)"

fun unravel :: "nat list \<Rightarrow> nat \<Rightarrow> nat list" where
  "unravel [] n = []"
| "unravel (d # ds) n = (n mod d) # unravel ds (n div d)"

fun ravel :: "nat list \<Rightarrow> nat list \<Rightarrow> nat" where
  "ravel (d # ds) (i # is) = (if d = 1 then 0 else i) + d * ravel ds is"
| "ravel ds is = 0"

definition broadcast_get :: "'a tensor \<Rightarrow> nat list \<Rightarrow> nat \<Rightarrow> 'a" where
  "broadcast_get t rs n = data t ! ravel (rev (shape t)) (unravel rs n)"

definition np_add :: "real tensor \<Rightarrow> real tensor \<Rightarrow> error + real tensor" where
  "np_add a b =
     (case broadcast_shapes (rev (shape a)) (rev (shape b)) of
        None \<Rightarrow> Inl (ValueError ''operands could not be broadcast together'')
      | Some rs \<Rightarrow>
          Inr \<lparr>shape = rev rs,
               data = map (\<lambda>n. broadcast_get a rs n + broadcast_get b rs n) [0..<prod_list rs]\<rparr>)"

subsection \<open>The function\<close>

text \<open>
  \<open>false_color\<close> is lines 77 to 83: the heatmap resized to the image's width and
  height, scaled to bytes, coloured, reordered to RGB and scaled back to floats.
  \<open>overlay_heatmap\<close> is the whole function; \<open>image.shape[1]\<close> raises for an image
  with fewer than two axes.
\<close>

definition false_color :: "real tensor \<Rightarrow> nat \<times> nat \<Rightarrow> colormap \<Rightarrow> error + real tensor" where
  "false_color heatmap dsize colormap =
     bind (cv2_resize heatmap dsize) (\<lambda>heatmap1.
     let heatmap2 = np_uint8 (times_scalar heatmap1 255);
         heatmap3 = applyColorMap heatmap2 colormap;
         heatmap4 = cvtColor_BGR2RGB heatmap3
     in Inr (divide_scalar (as_float heatmap4) 255))"

definition overlay_heatmap ::
  "real tensor \<Rightarrow> real tensor \<Rightarrow> real \<Rightarrow> colormap \<Rightarrow> error + real tensor" where
  "overlay_heatmap img heatmap alpha colormap =
     (case shape img of
        h # w # _ \<Rightarrow>
          bind (false_color heatmap (w, h) colormap) (\<lambda>heatmap5.
          bind (np_max img) (\<lambda>m.
          let img1 = (if 1 < m then divide_scalar img 255 else img)
          in np_add (times_scalar heatmap5 alpha) (times_scalar img1 (1 - alpha))))
      | _ \<Rightarrow> Inl IndexError)"

text \<open>
  \<open>normalized_image\<close> is the image after lines 86 and 87, for an image that has a
  maximum: divided by 255 when its maximum exceeds 1, the image itself otherwise.
\<close>

definition normalized_image :: "real tensor \<Rightarrow> real tensor" where
  "normalized_image img = (if 1 < Max (set (data img)) then divide_scalar img 255 else img)"

text \<open>\<open>ramp\<close> is a colormap for the examples: from blue at 0 to red at 255.\<close>

definition ramp :: colormap where
  "ramp v = (255 - v, 0, v)"

section \<open>\<open>overlay_heatmap\<close> on arrays in memory\<close>

text \<open>
  NumPy arrays are objects: the caller and the function hold references to the same
  array, and an operation either writes into an existing array or makes a new one. The
  memory is the list of the arrays made so far, and a reference is a position in it.
  A new array is appended; nothing in the memory is ever removed. An array holds floats
  or bytes.
\<close>

datatype ndarray = Float "real tensor" | UInt8 "nat tensor"

type_synonym heap = "ndarray list"

type_synonym 'a prog = "heap \<Rightarrow> (error + 'a) \<times> heap"

text \<open>
  A statement is a function from the memory to its result (a value or an exception)
  and the memory after it.
\<close>

definition return_st :: "'a \<Rightarrow> 'a prog" where
  "return_st x = (\<lambda>s. (Inr x, s))"

definition raise_st :: "error \<Rightarrow> 'a prog" where
  "raise_st e = (\<lambda>s. (Inl e, s))"

definition then_st :: "'a prog \<Rightarrow> ('a \<Rightarrow> 'b prog) \<Rightarrow> 'b prog" where
  "then_st m f = (\<lambda>s. case m s of (Inl e, s') \<Rightarrow> (Inl e, s') | (Inr x, s') \<Rightarrow> f x s')"

definition new_array :: "ndarray \<Rightarrow> nat prog" where
  "new_array v = (\<lambda>s. (Inr (length s), s @ [v]))"

definition read_array :: "nat \<Rightarrow> ndarray prog" where
  "read_array a = (\<lambda>s. (Inr (s ! a), s))"

text \<open>
  Every operation that \<open>overlay_heatmap\<close> calls (\<open>cv2.resize\<close>, \<open>np.uint8\<close>,
  \<open>cv2.applyColorMap\<close>, \<open>cv2.cvtColor\<close>, and the operators \<open>*\<close>, \<open>/\<close> and \<open>+\<close>
  on arrays) reads its operands and returns a new array: \<open>apply1\<close> and \<open>apply2\<close>.
  The source uses no operation that writes into an operand (no \<open>/=\<close>, no \<open>out=\<close>, no
  assignment to an element).
\<close>

definition apply1 :: "(ndarray \<Rightarrow> error + ndarray) \<Rightarrow> nat \<Rightarrow> nat prog" where
  "apply1 f a =
     then_st (read_array a) (\<lambda>v.
       case f v of Inl e \<Rightarrow> raise_st e | Inr r \<Rightarrow> new_array r)"

definition apply2 :: "(ndarray \<Rightarrow> ndarray \<Rightarrow> error + ndarray) \<Rightarrow> nat \<Rightarrow> nat \<Rightarrow> nat prog" where
  "apply2 f a b =
     then_st (read_array a) (\<lambda>v.
     then_st (read_array b) (\<lambda>w.
       case f v w of Inl e \<Rightarrow> raise_st e | Inr r \<Rightarrow> new_array r))"

definition to_float :: "ndarray \<Rightarrow> real tensor" where
  "to_float v = (case v of Float t \<Rightarrow> t | UInt8 t \<Rightarrow> as_float t)"

definition on_float :: "(real tensor \<Rightarrow> error + ndarray) \<Rightarrow> ndarray \<Rightarrow> error + ndarray" where
  "on_float f v = (case v of Float t \<Rightarrow> f t | UInt8 t \<Rightarrow> Inl Unsupported)"

definition on_uint8 :: "(nat tensor \<Rightarrow> ndarray) \<Rightarrow> ndarray \<Rightarrow> error + ndarray" where
  "on_uint8 f v = (case v of UInt8 t \<Rightarrow> Inr (f t) | Float t \<Rightarrow> Inl Unsupported)"

text \<open>
  The function, statement by statement. An assignment to \<open>heatmap\<close> or \<open>image\<close>
  binds the local name to another reference; when the maximum of the image is at most 1,
  \<open>image\<close> keeps referring to the caller's array. \<open>false_color_st\<close> is lines 77 to
  83 and \<open>blend_st\<close> lines 86 to 92.
\<close>

definition blend_st :: "nat \<Rightarrow> nat \<Rightarrow> real \<Rightarrow> nat prog" where
  "blend_st img heatmap5 alpha =
     then_st (read_array img) (\<lambda>iv.
     case np_max (to_float iv) of
       Inl e \<Rightarrow> raise_st e
     | Inr m \<Rightarrow>
         then_st (if 1 < m
                  then apply1 (\<lambda>v. Inr (Float (divide_scalar (to_float v) 255))) img
                  else return_st img) (\<lambda>img1.
         then_st (apply1 (\<lambda>v. Inr (Float (times_scalar (to_float v) alpha))) heatmap5) (\<lambda>weighted.
         then_st (apply1 (\<lambda>v. Inr (Float (times_scalar (to_float v) (1 - alpha)))) img1) (\<lambda>rest.
         apply2 (\<lambda>v w. map_sum id Float (np_add (to_float v) (to_float w))) weighted rest))))"

definition false_color_st :: "nat \<Rightarrow> nat \<times> nat \<Rightarrow> colormap \<Rightarrow> nat prog" where
  "false_color_st heatmap dsize colormap =
     then_st (apply1 (on_float (\<lambda>t. map_sum id Float (cv2_resize t dsize))) heatmap) (\<lambda>heatmap1.
     then_st (apply1 (on_float (\<lambda>t. Inr (Float (times_scalar t 255)))) heatmap1) (\<lambda>scaled.
     then_st (apply1 (on_float (\<lambda>t. Inr (UInt8 (np_uint8 t)))) scaled) (\<lambda>heatmap2.
     then_st (apply1 (on_uint8 (\<lambda>t. UInt8 (applyColorMap t colormap))) heatmap2) (\<lambda>heatmap3.
     then_st (apply1 (on_uint8 (\<lambda>t. UInt8 (cvtColor_BGR2RGB t))) heatmap3) (\<lambda>heatmap4.
     apply1 (\<lambda>v. Inr (Float (divide_scalar (to_float v) 255))) heatmap4)))))"

definition overlay_heatmap_st :: "nat \<Rightarrow> nat \<Rightarrow> real \<Rightarrow> colormap \<Rightarrow> nat prog" where
  "overlay_heatmap_st img heatmap alpha colormap =
     then_st (read_array img) (\<lambda>iv.
     case shape (to_float iv) of
       h # w # _ \<Rightarrow>
         then_st (false_color_st heatmap (w, h) colormap) (\<lambda>heatmap5.
         blend_st img heatmap5 alpha)
     | _ \<Rightarrow> raise_st IndexError)"

text \<open>A statement grows the memory when it only appends to it.\<close>

definition grows :: "'a prog \<Rightarrow> bool" where
  "grows p = (\<forall>s. \<exists>ext. snd (p s) = s @ ext)"

section \<open>Properties of the text helpers\<close>

lemma class_explanations_outside:
  "c < 0 \<or> 4 < c \<Longrightarrow> class_explanations c = None"
  by (auto simp: class_explanations_def)

lemma recommendations_outside:
  "c < 0 \<or> 4 < c \<Longrightarrow> recommendations c = None"
  by (auto simp: recommendations_def)

lemma class_explanations_zero:
  "class_explanations 0 = Some ''The computer looked at your eye photo and did not find any signs of disease. Your blood vessels look clear and healthy.''"
  by (simp add: class_explanations_def)

lemma recommendations_zero:
  "recommendations 0 = Some
     \<lparr>nurse = ''Result indicates no diabetic retinopathy. Routine follow-up recommended.'',
      patient = ''Your eyes look healthy. Come back for another screening in 1 year.'',
      urgency = ''routine'', note_entry = None\<rparr>"
  by (simp add: recommendations_def)

text \<open>
  Claim C9. For a predicted class outside \<open>{0,...,4}\<close> neither function raises:
  \<open>explain_prediction_simple\<close> returns the class-0 explanation followed by the
  confidence sentence, and \<open>get_recommendation\<close> returns the class-0 (routine
  follow-up) entry with the confidence note, exactly what each returns for class 0.
\<close>

theorem out_of_range_class_falls_back_to_class_0:
  assumes "c < 0 \<or> 4 < c"
  shows "explain_prediction_simple c conf focus =
           Inr (''The computer looked at your eye photo and did not find any signs of disease. Your blood vessels look clear and healthy.''
                @ confidence_sentence conf)
       \<and> explain_prediction_simple c conf focus = explain_prediction_simple 0 conf focus
       \<and> get_recommendation c conf =
           Inr \<lparr>nurse = ''Result indicates no diabetic retinopathy. Routine follow-up recommended.'',
                patient = ''Your eyes look healthy. Come back for another screening in 1 year.'',
                urgency = ''routine'', note_entry = Some (confidence_note conf)\<rparr>
       \<and> get_recommendation c conf = get_recommendation 0 conf"
proof -
  have e: "class_explanations c = None" and r: "recommendations c = None"
    using assms by (rule class_explanations_outside, rule recommendations_outside)
  show ?thesis
    by (simp add: explain_prediction_simple_def get_recommendation_def subscript_def
        dict_get_def e r class_explanations_zero recommendations_zero)
qed

theorem out_of_range_class_falls_back_to_class_0_witness:
  "((7::int) < 0 \<or> 4 < (7::int))
   \<and> explain_prediction_simple 7 0.87 '''' =
       Inr (''The computer looked at your eye photo and did not find any signs of disease. Your blood vessels look clear and healthy.''
            @ [CHR 0x0A, CHR 0x0A] @ ''The computer is 87% confident about this finding.'')
   \<and> get_recommendation 7 0.87 =
       Inr \<lparr>nurse = ''Result indicates no diabetic retinopathy. Routine follow-up recommended.'',
            patient = ''Your eyes look healthy. Come back for another screening in 1 year.'',
            urgency = ''routine'', note_entry = Some ''High confidence result''\<rparr>"
  using out_of_range_class_falls_back_to_class_0 [of 7 "0.87" "''''"]
  by (simp add: confidence_sentence_def confidence_note_def py_int_def str_int_def)

section \<open>Properties of \<open>get_gradcam_heatmap\<close>\<close>

subsection \<open>Auxiliary facts\<close>

lemma bind_Inl [simp]: "bind (Inl e) f = Inl e"
  by (simp add: bind_def)

lemma bind_Inr [simp]: "bind (Inr x) f = f x"
  by (simp add: bind_def)

lemma float32_huge_pos: "0 < float32_huge" "float32_tiny < float32_huge" "0 < float32_tiny"
  by (simp_all add: float32_huge_def float32_tiny_def)

lemma float32_not_NaN [simp]: "float32 x \<noteq> NaN"
  by (simp add: float32_def)

lemma fl_max_float32: "fl_max (float32 x) (float32 y) = float32 (max x y)"
  using float32_huge_pos by (auto simp: float32_def max_def)

lemma fl_max_NInf_right: "v \<noteq> NaN \<Longrightarrow> fl_max v NInf = v"
  by (cases v) simp_all

lemma reduce_max_float32:
  "xs \<noteq> [] \<Longrightarrow> reduce_max (map float32 xs) = float32 (Max (set xs))"
proof (induction xs)
  case Nil
  then show ?case by simp
next
  case (Cons x xs)
  show ?case
  proof (cases "xs = []")
    case True
    then show ?thesis by (simp add: fl_max_NInf_right)
  next
    case False
    then have "reduce_max (map float32 xs) = float32 (Max (set xs))" by (rule Cons.IH)
    then show ?thesis using False by (simp add: fl_max_float32)
  qed
qed

lemma float32_cases:
  obtains (pinf) "float32_huge \<le> x" "float32 x = PInf"
        | (ninf) "x \<le> - float32_huge" "float32 x = NInf"
        | (zero) "\<bar>x\<bar> \<le> float32_tiny" "float32 x = Fin 0"
        | (fin) "float32_tiny < \<bar>x\<bar>" "\<bar>x\<bar> < float32_huge" "float32 x = Fin x"
proof (cases "float32_huge \<le> x")
  case True
  then show ?thesis using pinf by (simp add: float32_def)
next
  case nh: False
  show ?thesis
  proof (cases "x \<le> - float32_huge")
    case True
    then show ?thesis using ninf nh by (simp add: float32_def)
  next
    case nl: False
    show ?thesis
    proof (cases "\<bar>x\<bar> \<le> float32_tiny")
      case True
      then show ?thesis using zero nh nl by (simp add: float32_def)
    next
      case False
      moreover have "\<bar>x\<bar> < float32_huge" using nh nl by linarith
      ultimately show ?thesis using fin nh nl by (simp add: float32_def)
    qed
  qed
qed

lemma float32_Fin_pos:
  assumes "float32 x = Fin m" "0 < m"
  shows "m = x" "x < float32_huge"
  using assms by (auto simp: float32_def split: if_splits)

lemma clip_float32_le:
  assumes le: "x \<le> M" and M: "float32 M = Fin M" "0 < M"
  shows "\<exists>r. fl_max (float32 x) (Fin 0) = Fin r \<and> 0 \<le> r \<and> r \<le> M"
proof -
  have "M < float32_huge" using M by (rule float32_Fin_pos(2) [of M M])
  with le have "x < float32_huge" by simp
  then show ?thesis using le M(2) by (auto simp: float32_def max_def)
qed

lemma normalize_positive:
  assumes mx: "reduce_max (map float32 xs) = Fin M" and pos: "0 < M" and x: "x \<in> set xs"
  shows "\<exists>r. tf_divide (fl_max (float32 x) (Fin 0)) (reduce_max (map float32 xs)) = Fin r
           \<and> 0 \<le> r \<and> r \<le> 1"
proof -
  have ne: "xs \<noteq> []" using x by auto
  have fm: "float32 (Max (set xs)) = Fin M" using mx reduce_max_float32 [OF ne] by simp
  have M: "Max (set xs) = M" using float32_Fin_pos(1) [OF fm pos] by simp
  have le: "x \<le> M" using x M by (metis List.finite_set Max_ge)
  obtain r where r: "fl_max (float32 x) (Fin 0) = Fin r" "0 \<le> r" "r \<le> M"
    using clip_float32_le [OF le] fm M pos by auto
  have "tf_divide (Fin r) (Fin M) = Fin (r / M)" using pos by simp
  moreover have "0 \<le> r / M" "r / M \<le> 1" using r pos by simp_all
  ultimately show ?thesis unfolding mx r(1) by blast
qed

lemma normalize_attains_one:
  assumes mx: "reduce_max (map float32 xs) = Fin M" and pos: "0 < M" and ne: "xs \<noteq> []"
  shows "Fin 1 \<in> (\<lambda>x. tf_divide (fl_max (float32 x) (Fin 0)) (reduce_max (map float32 xs))) ` set xs"
proof -
  have fm: "float32 (Max (set xs)) = Fin M" using mx reduce_max_float32 [OF ne] by simp
  have M: "Max (set xs) = M" using float32_Fin_pos(1) [OF fm pos] by simp
  have "Max (set xs) \<in> set xs" using ne by (intro Max_in) simp_all
  then have "M \<in> set xs" using M by simp
  moreover have "tf_divide (fl_max (float32 M) (Fin 0)) (reduce_max (map float32 xs)) = Fin 1"
    using fm M pos unfolding mx by simp
  ultimately show ?thesis by force
qed

lemma normalize_nonpositive:
  assumes le: "\<forall>x\<in>set xs. x \<le> 0" and x: "x \<in> set xs"
  shows "tf_divide (fl_max (float32 x) (Fin 0)) (reduce_max (map float32 xs))
           = (if float32 (Max (set xs)) = Fin 0 then NaN else Fin 0)"
proof -
  have ne: "xs \<noteq> []" using x by auto
  then have "Max (set xs) \<in> set xs" by (intro Max_in) simp_all
  with le have m: "Max (set xs) \<le> 0" by blast
  have x0: "x \<le> 0" using le x by blast
  have num: "fl_max (float32 x) (Fin 0) = Fin 0"
    using x0 float32_huge_pos by (auto simp: float32_def)
  have den: "reduce_max (map float32 xs) = float32 (Max (set xs))"
    by (rule reduce_max_float32 [OF ne])
  show ?thesis
  proof (cases "Max (set xs)" rule: float32_cases)
    case pinf
    then show ?thesis using m float32_huge_pos by linarith
  next
    case ninf
    then show ?thesis unfolding num den by simp
  next
    case zero
    then show ?thesis unfolding num den by simp
  next
    case fin
    then have "Max (set xs) \<noteq> 0" using float32_huge_pos by auto
    then show ?thesis unfolding num den using fin by simp
  qed
qed

lemma argmax_from_spec:
  assumes "bi < length pre" "bv = (pre @ xs) ! bi" "\<forall>j < length pre. (pre @ xs) ! j \<le> bv"
    "\<forall>j < bi. (pre @ xs) ! j < bv"
  shows "argmax_from bi bv (length pre) xs < length (pre @ xs)
       \<and> (\<forall>j < length (pre @ xs). (pre @ xs) ! j \<le> (pre @ xs) ! argmax_from bi bv (length pre) xs)
       \<and> (\<forall>j < argmax_from bi bv (length pre) xs. (pre @ xs) ! j < (pre @ xs) ! argmax_from bi bv (length pre) xs)"
  using assms
proof (induction xs arbitrary: bi bv pre)
  case Nil
  then show ?case by simp
next
  case (Cons x xs)
  let ?pre = "pre @ [x]"
  have app: "?pre @ xs = pre @ x # xs" by simp
  have len: "length ?pre = Suc (length pre)" by simp
  show ?case
  proof (cases "bv < x")
    case True
    have "length pre < length ?pre" by simp
    moreover have "x = (?pre @ xs) ! length pre" by (simp add: nth_append)
    moreover have "\<forall>j < length ?pre. (?pre @ xs) ! j \<le> x"
    proof (intro allI impI)
      fix j assume "j < length ?pre"
      then consider "j < length pre" | "j = length pre" by fastforce
      then show "(?pre @ xs) ! j \<le> x"
      proof cases
        case 1 then show ?thesis using Cons.prems(3) True by (metis app less_eq_real_def order_trans)
      next
        case 2 then show ?thesis by (simp add: nth_append)
      qed
    qed
    moreover have "\<forall>j < length pre. (?pre @ xs) ! j < x"
      using Cons.prems(3) True by (metis app order.strict_trans1)
    ultimately have "argmax_from (length pre) x (length ?pre) xs < length (?pre @ xs)
       \<and> (\<forall>j < length (?pre @ xs). (?pre @ xs) ! j \<le> (?pre @ xs) ! argmax_from (length pre) x (length ?pre) xs)
       \<and> (\<forall>j < argmax_from (length pre) x (length ?pre) xs. (?pre @ xs) ! j < (?pre @ xs) ! argmax_from (length pre) x (length ?pre) xs)"
      by (rule Cons.IH)
    then show ?thesis using True unfolding app len by simp
  next
    case False
    have "bi < length ?pre" using Cons.prems(1) by simp
    moreover have "bv = (?pre @ xs) ! bi" using Cons.prems(2) by simp
    moreover have "\<forall>j < length ?pre. (?pre @ xs) ! j \<le> bv"
    proof (intro allI impI)
      fix j assume "j < length ?pre"
      then consider "j < length pre" | "j = length pre" by fastforce
      then show "(?pre @ xs) ! j \<le> bv"
      proof cases
        case 1 then show ?thesis using Cons.prems(3) by simp
      next
        case 2 then show ?thesis using False by (simp add: nth_append)
      qed
    qed
    moreover have "\<forall>j < bi. (?pre @ xs) ! j < bv" using Cons.prems(4) by simp
    ultimately have "argmax_from bi bv (length ?pre) xs < length (?pre @ xs)
       \<and> (\<forall>j < length (?pre @ xs). (?pre @ xs) ! j \<le> (?pre @ xs) ! argmax_from bi bv (length ?pre) xs)
       \<and> (\<forall>j < argmax_from bi bv (length ?pre) xs. (?pre @ xs) ! j < (?pre @ xs) ! argmax_from bi bv (length ?pre) xs)"
      by (rule Cons.IH)
    then show ?thesis using False unfolding app len by simp
  qed
qed

lemma tf_argmax_first_max:
  assumes "xs \<noteq> []"
  shows "\<exists>c. tf_argmax xs = Inr c \<and> c < length xs \<and> (\<forall>j < length xs. xs ! j \<le> xs ! c)
           \<and> (\<forall>j < c. xs ! j < xs ! c)"
proof -
  obtain x rest where xs: "xs = x # rest" using assms by (cases xs) auto
  have "argmax_from 0 x (length [x]) rest < length ([x] @ rest)
       \<and> (\<forall>j < length ([x] @ rest). ([x] @ rest) ! j \<le> ([x] @ rest) ! argmax_from 0 x (length [x]) rest)
       \<and> (\<forall>j < argmax_from 0 x (length [x]) rest. ([x] @ rest) ! j < ([x] @ rest) ! argmax_from 0 x (length [x]) rest)"
    by (rule argmax_from_spec) simp_all
  then show ?thesis by (simp add: xs tf_argmax_def)
qed

lemma ci_tiny:
  "channel_importance (tiny_model acts g) () None None
     = Inr (\<lparr>shape = [1, 2, 2, 1], data = acts\<rparr>, \<lparr>shape = [1], data = [g]\<rparr>)"
  by (simp add: channel_importance_def forward_pass_def tiny_model_def find_last_conv_layer_def
      get_layer_def select_class_def index0_def tf_argmax_def reduce_mean_012_def const_tensor_def
      upt_rec)

lemma raw_tiny:
  "raw_heatmap \<lparr>shape = [1, 2, 2, 1], data = [a, b, c, d]\<rparr> \<lparr>shape = [1], data = [g]\<rparr>
     = Inr \<lparr>shape = [2, 2], data = [a * g, b * g, c * g, d * g]\<rparr>"
  by (simp add: raw_heatmap_def index0_def matmul_newaxis_def squeeze_def dot_def upt_rec)

lemma fp_class:
  "forward_pass class_model () None
     = Inr (\<lparr>layer_name = ''conv'', output_shape = [None, Some 2, Some 2, Some 1]\<rparr>,
            \<lparr>shape = [1, 2, 2, 1], data = [0, 1, 0, 2]\<rparr>,
            \<lparr>shape = [1, 3], data = [0.1, 0.4, 0.4]\<rparr>)"
  by (simp add: forward_pass_def class_model_def find_last_conv_layer_def get_layer_def)

lemma heatmap_of_class:
  assumes fp: "forward_pass m img lname = Inr (l, conv_outputs, predictions)"
      and sel: "select_class predictions pc = Inr c"
  shows "get_gradcam_heatmap m img pc lname =
           (case tape_gradient m (layer_name l) img c of
              None \<Rightarrow> Inl (ValueError ''None values not supported.'')
            | Some grads \<Rightarrow>
                bind (reduce_mean_012 grads) (\<lambda>pooled_grads.
                bind (raw_heatmap conv_outputs pooled_grads) (\<lambda>heatmap.
                Inr (normalize_heatmap heatmap))))"
proof (cases "tape_gradient m (layer_name l) img c")
  case None
  then show ?thesis
    by (simp add: get_gradcam_heatmap_def channel_importance_def fp sel)
next
  case (Some grads)
  then show ?thesis
    by (cases "reduce_mean_012 grads")
      (simp_all add: get_gradcam_heatmap_def channel_importance_def fp sel)
qed

lemma forward_pass_class_free:
  "forward_pass m img lname = Inr (l, conv, preds) \<Longrightarrow>
   select_class preds pc = select_class preds pc' \<Longrightarrow>
   get_gradcam_heatmap m img pc lname = get_gradcam_heatmap m img pc' lname"
  by (simp add: get_gradcam_heatmap_def channel_importance_def)

lemma select_class_explicit:
  "shape preds = [b, k] \<Longrightarrow> c < k \<Longrightarrow> select_class preds (Some (int c)) = Inr c"
  by (simp add: select_class_def)

subsection \<open>The normalised heatmap\<close>

text \<open>
  Claim C2, as the code has it. When the maximum of the weighted feature sum (the
  heatmap that line 58 reads, in single precision) is finite and strictly positive,
  \<open>get_gradcam_heatmap\<close> returns a heatmap of the same shape whose every element is a
  finite number between 0 and 1, and at least one element is exactly 1.
\<close>

theorem normalization_bound:
  assumes ci: "channel_importance m img pc lname = Inr (conv, pooled)"
      and raw: "raw_heatmap conv pooled = Inr raw"
      and mx: "reduce_max (map float32 (data raw)) = Fin M" and pos: "0 < M"
  shows "\<exists>hm. get_gradcam_heatmap m img pc lname = Inr hm \<and> shape hm = shape raw
           \<and> length (data hm) = length (data raw)
           \<and> (\<forall>v\<in>set (data hm). \<exists>r. v = Fin r \<and> 0 \<le> r \<and> r \<le> 1)
           \<and> Fin 1 \<in> set (data hm)"
proof -
  have ne: "data raw \<noteq> []" using mx by auto
  have g: "get_gradcam_heatmap m img pc lname = Inr (normalize_heatmap raw)"
    by (simp add: get_gradcam_heatmap_def ci raw)
  have d: "data (normalize_heatmap raw)
             = map (\<lambda>x. tf_divide (fl_max (float32 x) (Fin 0)) (reduce_max (map float32 (data raw))))
                   (data raw)"
    by (simp add: normalize_heatmap_def Let_def comp_def)
  have b: "\<forall>v\<in>set (data (normalize_heatmap raw)). \<exists>r. v = Fin r \<and> 0 \<le> r \<and> r \<le> 1"
    unfolding d using normalize_positive [OF mx pos] by auto
  have o: "Fin 1 \<in> set (data (normalize_heatmap raw))"
    unfolding d using normalize_attains_one [OF mx pos ne] by simp
  have "shape (normalize_heatmap raw) = shape raw"
    and "length (data (normalize_heatmap raw)) = length (data raw)"
    by (simp_all add: normalize_heatmap_def Let_def)
  then show ?thesis using g b o by blast
qed

theorem normalization_bound_witness:
  "channel_importance (tiny_model [0, 1, 0, 2] 1) () None None
      = Inr (\<lparr>shape = [1, 2, 2, 1], data = [0, 1, 0, 2]\<rparr>, \<lparr>shape = [1], data = [1]\<rparr>)
   \<and> raw_heatmap \<lparr>shape = [1, 2, 2, 1], data = [0, 1, 0, 2]\<rparr> \<lparr>shape = [1], data = [1]\<rparr>
      = Inr \<lparr>shape = [2, 2], data = [0, 1, 0, 2]\<rparr>
   \<and> reduce_max (map float32 [0, 1, 0, 2]) = Fin 2
   \<and> (\<exists>hm. get_gradcam_heatmap (tiny_model [0, 1, 0, 2] 1) () None None = Inr hm
          \<and> shape hm = [2, 2] \<and> length (data hm) = length [0, 1, 0, 2::real]
          \<and> (\<forall>v\<in>set (data hm). \<exists>r. v = Fin r \<and> 0 \<le> r \<and> r \<le> 1)
          \<and> Fin 1 \<in> set (data hm))"
proof -
  have ci: "channel_importance (tiny_model [0, 1, 0, 2] 1) () None None
      = Inr (\<lparr>shape = [1, 2, 2, 1], data = [0, 1, 0, 2]\<rparr>, \<lparr>shape = [1], data = [1]\<rparr>)"
    by (rule ci_tiny)
  have raw: "raw_heatmap \<lparr>shape = [1, 2, 2, 1], data = [0, 1, 0, 2]\<rparr> \<lparr>shape = [1], data = [1]\<rparr>
      = Inr \<lparr>shape = [2, 2], data = [0, 1, 0, 2]\<rparr>"
    using raw_tiny [of 0 1 0 2 1] by simp
  have mx: "reduce_max (map float32 (data \<lparr>shape = [2, 2], data = [0, 1, 0, 2::real]\<rparr>)) = Fin 2"
    by (simp add: float32_def float32_huge_def float32_tiny_def)
  have pos: "0 < (2::real)" by simp
  show ?thesis using normalization_bound [OF ci raw mx pos] ci raw mx by simp
qed

text \<open>
  The claim as the specification states it fails when the weighted sum leaves the range
  of single precision: with the activations \<open>[0, 2^126, 0, 2^127]\<close> and the channel
  weight 4 the sum is \<open>[0, 2^128, 0, 2^129]\<close>, its maximum is strictly positive, both
  positive entries are infinite in single precision, and an infinity over an infinity
  is NaN.
\<close>

theorem normalization_bound_counterexample:
  "raw_heatmap \<lparr>shape = [1, 2, 2, 1], data = [0, 2 ^ 126, 0, 2 ^ 127]\<rparr> \<lparr>shape = [1], data = [4]\<rparr>
      = Inr \<lparr>shape = [2, 2], data = [0, 2 ^ 128, 0, 2 ^ 129]\<rparr>
   \<and> get_gradcam_heatmap (tiny_model [0, 2 ^ 126, 0, 2 ^ 127] 4) () None None
      = Inr \<lparr>shape = [2, 2], data = [Fin 0, NaN, Fin 0, NaN]\<rparr>"
proof -
  have ci: "channel_importance (tiny_model [0, 2 ^ 126, 0, 2 ^ 127] 4) () None None
      = Inr (\<lparr>shape = [1, 2, 2, 1], data = [0, 2 ^ 126, 0, 2 ^ 127]\<rparr>, \<lparr>shape = [1], data = [4]\<rparr>)"
    by (rule ci_tiny)
  have raw: "raw_heatmap \<lparr>shape = [1, 2, 2, 1], data = [0, 2 ^ 126, 0, 2 ^ 127]\<rparr>
               \<lparr>shape = [1], data = [4]\<rparr>
      = Inr \<lparr>shape = [2, 2], data = [0, 2 ^ 128, 0, 2 ^ 129]\<rparr>"
    using raw_tiny [of 0 "2 ^ 126" 0 "2 ^ 127" 4] by simp
  have "get_gradcam_heatmap (tiny_model [0, 2 ^ 126, 0, 2 ^ 127] 4) () None None
          = Inr (normalize_heatmap \<lparr>shape = [2, 2], data = [0, 2 ^ 128, 0, 2 ^ 129]\<rparr>)"
    unfolding get_gradcam_heatmap_def ci by (simp only: bind_Inr prod.case raw)
  then have "get_gradcam_heatmap (tiny_model [0, 2 ^ 126, 0, 2 ^ 127] 4) () None None
      = Inr \<lparr>shape = [2, 2], data = [Fin 0, NaN, Fin 0, NaN]\<rparr>"
    by (simp add: normalize_heatmap_def float32_def float32_huge_def float32_tiny_def)
  with raw show ?thesis by (rule conjI)
qed

text \<open>
  The weighted sum has no positive entry when every channel weight is at most zero and
  every activation of the feature map is at least zero.
\<close>

lemma dot_nonpositive:
  assumes "\<forall>a\<in>set xs. 0 \<le> a" "\<forall>w\<in>set ys. w \<le> 0"
  shows "dot xs ys \<le> 0"
proof -
  have "\<forall>p\<in>set (zip xs ys). (case p of (a, w) \<Rightarrow> a * w) \<le> 0"
  proof
    fix p assume p: "p \<in> set (zip xs ys)"
    obtain a w where aw: "p = (a, w)" by (cases p)
    have "0 \<le> a" "w \<le> 0"
      using p aw assms by (auto dest: set_zip_leftD set_zip_rightD)
    then show "(case p of (a, w) \<Rightarrow> a * w) \<le> 0"
      by (simp add: aw mult_nonneg_nonpos)
  qed
  then have "sum_list (map (\<lambda>(a, w). a * w) (zip xs ys)) \<le> 0"
    by (intro sum_list_nonpos) auto
  then show ?thesis by (simp add: dot_def)
qed

lemma raw_heatmap_nonpositive:
  assumes raw: "raw_heatmap conv pooled = Inr raw"
      and w: "\<forall>w\<in>set (data pooled). w \<le> 0"
      and a: "\<forall>a\<in>set (data conv). 0 \<le> a"
  shows "\<forall>x\<in>set (data raw). x \<le> 0"
proof -
  obtain conv0 hm where c0: "index0 conv = Inr conv0"
      and mm: "matmul_newaxis conv0 pooled = Inr hm" and r: "raw = squeeze hm"
    using raw by (auto simp: raw_heatmap_def bind_def split: sum.splits)
  have sub: "set (data conv0) \<subseteq> set (data conv)"
    using c0 by (auto simp: index0_def split: list.splits if_splits dest: in_set_takeD)
  obtain h wd c where hm: "data hm = map (\<lambda>p. dot (take c (drop (p * c) (data conv0))) (data pooled))
                               [0..<h * wd]"
    using mm by (auto simp: matmul_newaxis_def split: list.splits if_splits)
  have "dot (take c (drop (p * c) (data conv0))) (data pooled) \<le> 0" for p
  proof (rule dot_nonpositive [OF _ w])
    show "\<forall>a\<in>set (take c (drop (p * c) (data conv0))). 0 \<le> a"
      using sub a by (meson in_set_dropD in_set_takeD subsetD)
  qed
  then show ?thesis by (auto simp: r squeeze_def hm)
qed

text \<open>
  Claim C1, as the code has it. When no entry of the weighted feature sum is positive,
  \<open>get_gradcam_heatmap\<close> raises nothing, and line 58 divides zero by the largest
  entry: the heatmap is NaN everywhere when that entry is zero in single precision,
  since the divisor is not tested, and zero everywhere when it is negative.
\<close>

theorem degenerate_heatmap:
  assumes ci: "channel_importance m img pc lname = Inr (conv, pooled)"
      and raw: "raw_heatmap conv pooled = Inr raw"
      and nonpos: "\<forall>x\<in>set (data raw). x \<le> 0"
  shows "get_gradcam_heatmap m img pc lname =
           Inr \<lparr>shape = shape raw,
                data = replicate (length (data raw))
                         (if float32 (Max (set (data raw))) = Fin 0 then NaN else Fin 0)\<rparr>"
proof -
  have g: "get_gradcam_heatmap m img pc lname = Inr (normalize_heatmap raw)"
    by (simp add: get_gradcam_heatmap_def ci raw)
  have d: "data (normalize_heatmap raw)
             = map (\<lambda>x. tf_divide (fl_max (float32 x) (Fin 0)) (reduce_max (map float32 (data raw))))
                   (data raw)"
    by (simp add: normalize_heatmap_def Let_def comp_def)
  have "map (\<lambda>x. tf_divide (fl_max (float32 x) (Fin 0)) (reduce_max (map float32 (data raw))))
            (data raw)
          = map (\<lambda>x. if float32 (Max (set (data raw))) = Fin 0 then NaN else Fin 0) (data raw)"
    by (rule map_cong [OF refl]) (rule normalize_nonpositive [OF nonpos])
  also have "\<dots> = replicate (length (data raw))
                      (if float32 (Max (set (data raw))) = Fin 0 then NaN else Fin 0)"
    by (simp add: map_replicate_const)
  finally have "data (normalize_heatmap raw)
                  = replicate (length (data raw))
                      (if float32 (Max (set (data raw))) = Fin 0 then NaN else Fin 0)"
    unfolding d .
  moreover have "shape (normalize_heatmap raw) = shape raw"
    by (simp add: normalize_heatmap_def Let_def)
  ultimately have "normalize_heatmap raw
      = \<lparr>shape = shape raw,
         data = replicate (length (data raw))
                  (if float32 (Max (set (data raw))) = Fin 0 then NaN else Fin 0)\<rparr>"
    by (cases "normalize_heatmap raw") simp
  then show ?thesis unfolding g by simp
qed

theorem degenerate_heatmap_witness:
  "channel_importance (tiny_model [1, 1, 3, 2] (- 1)) () None None
      = Inr (\<lparr>shape = [1, 2, 2, 1], data = [1, 1, 3, 2]\<rparr>, \<lparr>shape = [1], data = [- 1]\<rparr>)
   \<and> raw_heatmap \<lparr>shape = [1, 2, 2, 1], data = [1, 1, 3, 2]\<rparr> \<lparr>shape = [1], data = [- 1]\<rparr>
      = Inr \<lparr>shape = [2, 2], data = [- 1, - 1, - 3, - 2]\<rparr>
   \<and> list_all (\<lambda>x. x \<le> 0) [- 1, - 1, - 3, - 2 :: real]
   \<and> get_gradcam_heatmap (tiny_model [1, 1, 3, 2] (- 1)) () None None
      = Inr \<lparr>shape = [2, 2], data = [Fin 0, Fin 0, Fin 0, Fin 0]\<rparr>"
proof -
  have ci: "channel_importance (tiny_model [1, 1, 3, 2] (- 1)) () None None
      = Inr (\<lparr>shape = [1, 2, 2, 1], data = [1, 1, 3, 2]\<rparr>, \<lparr>shape = [1], data = [- 1]\<rparr>)"
    by (rule ci_tiny)
  have raw: "raw_heatmap \<lparr>shape = [1, 2, 2, 1], data = [1, 1, 3, 2]\<rparr> \<lparr>shape = [1], data = [- 1]\<rparr>
      = Inr \<lparr>shape = [2, 2], data = [- 1, - 1, - 3, - 2]\<rparr>"
    using raw_tiny [of 1 1 3 2 "- 1"] by simp
  have nonpos: "\<forall>x\<in>set (data \<lparr>shape = [2, 2], data = [- 1, - 1, - 3, - 2 :: real]\<rparr>). x \<le> 0"
    by simp
  have "get_gradcam_heatmap (tiny_model [1, 1, 3, 2] (- 1)) () None None
      = Inr \<lparr>shape = [2, 2], data = [Fin 0, Fin 0, Fin 0, Fin 0]\<rparr>"
    using degenerate_heatmap [OF ci raw nonpos]
    by (simp add: numeral_eq_Suc float32_def float32_huge_def float32_tiny_def)
  then show ?thesis using ci raw by simp
qed

text \<open>
  The claim as the specification states it fails: the one channel weight is -1, two
  activations are zero, so the weighted sum is \<open>[0, -1, 0, -2]\<close>, its clipped form is
  zero everywhere, its maximum is zero, and the result is NaN everywhere.
\<close>

theorem degenerate_heatmap_counterexample:
  "channel_importance (tiny_model [0, 1, 0, 2] (- 1)) () None None
     = Inr (\<lparr>shape = [1, 2, 2, 1], data = [0, 1, 0, 2]\<rparr>, \<lparr>shape = [1], data = [- 1]\<rparr>)
   \<and> get_gradcam_heatmap (tiny_model [0, 1, 0, 2] (- 1)) () None None
     = Inr \<lparr>shape = [2, 2], data = [NaN, NaN, NaN, NaN]\<rparr>"
proof -
  have ci: "channel_importance (tiny_model [0, 1, 0, 2] (- 1)) () None None
     = Inr (\<lparr>shape = [1, 2, 2, 1], data = [0, 1, 0, 2]\<rparr>, \<lparr>shape = [1], data = [- 1]\<rparr>)"
    by (rule ci_tiny)
  have raw: "raw_heatmap \<lparr>shape = [1, 2, 2, 1], data = [0, 1, 0, 2]\<rparr> \<lparr>shape = [1], data = [- 1]\<rparr>
      = Inr \<lparr>shape = [2, 2], data = [0, - 1, 0, - 2]\<rparr>"
    using raw_tiny [of 0 1 0 2 "- 1"] by simp
  have "get_gradcam_heatmap (tiny_model [0, 1, 0, 2] (- 1)) () None None
          = Inr (normalize_heatmap \<lparr>shape = [2, 2], data = [0, - 1, 0, - 2]\<rparr>)"
    unfolding get_gradcam_heatmap_def ci by (simp only: bind_Inr prod.case raw)
  then have "get_gradcam_heatmap (tiny_model [0, 1, 0, 2] (- 1)) () None None
     = Inr \<lparr>shape = [2, 2], data = [NaN, NaN, NaN, NaN]\<rparr>"
    by (simp add: normalize_heatmap_def float32_def float32_huge_def float32_tiny_def)
  with ci show ?thesis by (rule conjI)
qed

subsection \<open>A classifier without a four-axis layer\<close>

text \<open>
  Claim C3, as the code has it. When no layer of the classifier has an output shape with
  four entries and no layer name is given, \<open>get_gradcam_heatmap\<close> fails in
  \<open>model.get_layer(None)\<close> with the \<open>ValueError\<close> of that lookup, whatever the image
  and the class; the source has no error of its own for the missing layer.
\<close>

theorem no_conv_layer_fails_in_get_layer:
  assumes "\<forall>l\<in>set (layers m). length (output_shape l) \<noteq> 4"
  shows "get_gradcam_heatmap m img pc None
           = Inl (ValueError ''Provide either a layer name or layer index at get_layer.'')"
proof -
  have "find (\<lambda>l. length (output_shape l) = 4) (rev (layers m)) = None"
    using assms by (simp add: find_None_iff)
  then show ?thesis
    by (simp add: get_gradcam_heatmap_def channel_importance_def forward_pass_def
        find_last_conv_layer_def get_layer_def)
qed

theorem no_conv_layer_fails_in_get_layer_witness:
  "list_all (\<lambda>l. length (output_shape l) \<noteq> 4) (layers dense_model)
   \<and> get_gradcam_heatmap dense_model () (Some 3) None
     = Inl (ValueError ''Provide either a layer name or layer index at get_layer.'')"
proof -
  have h: "\<forall>l\<in>set (layers dense_model). length (output_shape l) \<noteq> 4"
    by (simp add: dense_model_def)
  show ?thesis
    using no_conv_layer_fails_in_get_layer [OF h, of "()" "Some 3"] h
    by (simp add: list_all_iff)
qed

text \<open>
  The error of a classifier with a flatten and a dense layer only is the lookup's.
\<close>

theorem no_conv_layer_counterexample:
  "get_gradcam_heatmap dense_model () None None
     = Inl (ValueError ''Provide either a layer name or layer index at get_layer.'')"
  by (simp add: get_gradcam_heatmap_def channel_importance_def forward_pass_def
      find_last_conv_layer_def get_layer_def dense_model_def)

subsection \<open>The class when none is given\<close>

text \<open>
  Claim C5. When \<open>pred_class\<close> is omitted and the forward pass returns class scores
  for at least one image and at least one class, the class that \<open>get_gradcam_heatmap\<close>
  uses is an index \<open>c\<close> of the first row of scores such that no score of the row is
  larger and every score before \<open>c\<close> is strictly smaller (the first position of the
  maximum): the heatmap returned is the one computed from the gradient that the tape
  gives for class \<open>c\<close>, and the call returns what the call with \<open>pred_class = c\<close>
  returns.
\<close>

theorem argmax_fallback:
  assumes fp: "forward_pass m img lname = Inr (l, conv_outputs, predictions)"
      and sh: "shape predictions = [b, k]" and b: "0 < b" and k: "0 < k"
      and wf: "well_formed predictions"
  shows "\<exists>c. select_class predictions None = Inr c \<and> c < k
           \<and> (\<forall>j<k. data predictions ! j \<le> data predictions ! c)
           \<and> (\<forall>j<c. data predictions ! j < data predictions ! c)
           \<and> get_gradcam_heatmap m img None lname =
               (case tape_gradient m (layer_name l) img c of
                  None \<Rightarrow> Inl (ValueError ''None values not supported.'')
                | Some grads \<Rightarrow>
                    bind (reduce_mean_012 grads) (\<lambda>pooled_grads.
                    bind (raw_heatmap conv_outputs pooled_grads) (\<lambda>heatmap.
                    Inr (normalize_heatmap heatmap))))
           \<and> get_gradcam_heatmap m img None lname
               = get_gradcam_heatmap m img (Some (int c)) lname"
proof -
  let ?row = "take k (data predictions)"
  have len: "length (data predictions) = b * k" using wf sh by (simp add: well_formed_def)
  have "k \<le> b * k" using b by simp
  then have lrow: "length ?row = k" using len by simp
  then have "?row \<noteq> []" using k by auto
  then obtain c where c: "tf_argmax ?row = Inr c" "c < length ?row"
      "\<forall>j < length ?row. ?row ! j \<le> ?row ! c" "\<forall>j < c. ?row ! j < ?row ! c"
    using tf_argmax_first_max by blast
  have sel: "select_class predictions None = Inr c"
    using sh b c(1) by (simp add: select_class_def index0_def)
  have ck: "c < k" using c(2) lrow by simp
  have "get_gradcam_heatmap m img None lname = get_gradcam_heatmap m img (Some (int c)) lname"
    using fp by (rule forward_pass_class_free) (simp add: sel select_class_explicit [OF sh ck])
  moreover have "\<forall>j<k. data predictions ! j \<le> data predictions ! c"
    using c(3) ck lrow by simp
  moreover have "\<forall>j<c. data predictions ! j < data predictions ! c"
    using c(4) ck by simp
  moreover note heatmap_of_class [OF fp sel]
  ultimately show ?thesis using sel ck by blast
qed

theorem argmax_fallback_witness:
  "forward_pass class_model () None
     = Inr (\<lparr>layer_name = ''conv'', output_shape = [None, Some 2, Some 2, Some 1]\<rparr>,
            \<lparr>shape = [1, 2, 2, 1], data = [0, 1, 0, 2]\<rparr>,
            \<lparr>shape = [1, 3], data = [0.1, 0.4, 0.4]\<rparr>)
   \<and> well_formed \<lparr>shape = [1, 3], data = [0.1, 0.4, 0.4 :: real]\<rparr>
   \<and> select_class \<lparr>shape = [1, 3], data = [0.1, 0.4, 0.4]\<rparr> None = Inr 1
   \<and> tape_gradient class_model ''conv'' () 1 = Some (const_tensor [1, 2, 2, 1] 1)
   \<and> get_gradcam_heatmap class_model () None None
       = Inr \<lparr>shape = [2, 2], data = [Fin 0, Fin (1 / 2), Fin 0, Fin 1]\<rparr>"
proof -
  let ?P = "\<lparr>shape = [1, 3], data = [0.1, 0.4, 0.4 :: real]\<rparr>"
  let ?L = "\<lparr>layer_name = ''conv'', output_shape = [None, Some 2, Some 2, Some 1]\<rparr>"
  let ?C = "\<lparr>shape = [1, 2, 2, 1], data = [0, 1, 0, 2 :: real]\<rparr>"
  have wf: "well_formed ?P" by (simp add: well_formed_def)
  have sh: "shape ?P = [1, 3]" by simp
  have sel: "select_class ?P None = Inr 1"
    by (simp add: select_class_def index0_def tf_argmax_def)
  have tg: "tape_gradient class_model ''conv'' () 1 = Some (const_tensor [1, 2, 2, 1] 1)"
    by (simp add: class_model_def)
  obtain c where c: "select_class ?P None = Inr c"
    and g: "get_gradcam_heatmap class_model () None None =
              (case tape_gradient class_model (layer_name ?L) () c of
                 None \<Rightarrow> Inl (ValueError ''None values not supported.'')
               | Some grads \<Rightarrow>
                   bind (reduce_mean_012 grads) (\<lambda>pooled_grads.
                   bind (raw_heatmap ?C pooled_grads) (\<lambda>heatmap.
                   Inr (normalize_heatmap heatmap))))"
    using argmax_fallback [OF fp_class sh zero_less_one zero_less_numeral wf] by blast
  have c1: "c = 1" using c sel by simp
  have rm: "reduce_mean_012 (const_tensor [1, 2, 2, 1] 1) = Inr \<lparr>shape = [1], data = [1]\<rparr>"
    by (simp add: reduce_mean_012_def const_tensor_def upt_rec)
  have raw: "raw_heatmap ?C \<lparr>shape = [1], data = [1]\<rparr> = Inr \<lparr>shape = [2, 2], data = [0, 1, 0, 2]\<rparr>"
    using raw_tiny [of 0 1 0 2 1] by simp
  have nh: "normalize_heatmap \<lparr>shape = [2, 2], data = [0, 1, 0, 2]\<rparr>
              = \<lparr>shape = [2, 2], data = [Fin 0, Fin (1 / 2), Fin 0, Fin 1]\<rparr>"
    by (simp add: normalize_heatmap_def float32_def float32_huge_def float32_tiny_def)
  have "get_gradcam_heatmap class_model () None None
       = Inr \<lparr>shape = [2, 2], data = [Fin 0, Fin (1 / 2), Fin 0, Fin 1]\<rparr>"
    unfolding g c1 by (simp only: layer.simps tg option.case rm bind_Inr raw nh)
  then show ?thesis using fp_class wf sel tg by blast
qed

subsection \<open>A constant feature map\<close>

lemma dot_replicate: "dot (replicate n a) (replicate n b) = real n * (a * b)"
  by (simp add: dot_def zip_replicate sum_list_replicate)

lemma map_upt_const:
  assumes "\<And>p. p < n \<Longrightarrow> f p = v"
  shows "map f [0..<n] = replicate n v"
  using assms by (simp add: list_eq_iff_nth_eq)

lemma slice_replicate:
  assumes "p < n"
  shows "take c (drop (p * c) (replicate (n * c) a)) = replicate c a"
proof -
  have "Suc p * c \<le> n * c" using assms by (intro mult_le_mono1) simp
  then have "c \<le> n * c - p * c" by simp
  then show ?thesis by (simp add: min_def)
qed

lemma matmul_const:
  "matmul_newaxis (const_tensor [h, w, c] a) (const_tensor [c] b)
     = Inr (const_tensor [h, w, 1] (real c * (a * b)))"
proof -
  have "map (\<lambda>p. dot (take c (drop (p * c) (replicate (h * w * c) a))) (replicate c b)) [0..<h * w]
          = replicate (h * w) (real c * (a * b))"
  proof (rule map_upt_const)
    fix p assume "p < h * w"
    then have "take c (drop (p * c) (replicate (h * w * c) a)) = replicate c a"
      by (rule slice_replicate)
    then show "dot (take c (drop (p * c) (replicate (h * w * c) a))) (replicate c b)
                 = real c * (a * b)"
      by (simp only: dot_replicate)
  qed
  then show ?thesis
    by (simp add: matmul_newaxis_def const_tensor_def mult.assoc)
qed

lemma index0_const:
  "0 < b \<Longrightarrow> index0 (const_tensor (b # s) v) = Inr (const_tensor s v)"
  by (simp add: index0_def const_tensor_def min_def)

lemma raw_heatmap_const:
  assumes "0 < b" "h \<noteq> 1" "w \<noteq> 1"
  shows "raw_heatmap (const_tensor [b, h, w, c] x) (const_tensor [c] g)
           = Inr (const_tensor [h, w] (real c * (x * g)))"
  using assms
  by (simp add: raw_heatmap_def index0_const matmul_const) (simp add: squeeze_def const_tensor_def)

lemma normalize_const:
  assumes n: "0 < prod_list s" and v: "float32 v = Fin v" "0 < v"
  shows "normalize_heatmap (const_tensor s v) = const_tensor s (Fin 1)"
proof -
  have "replicate (prod_list s) v \<noteq> []" using n by simp
  then have "reduce_max (map float32 (replicate (prod_list s) v))
               = float32 (Max (set (replicate (prod_list s) v)))"
    by (rule reduce_max_float32)
  also have "\<dots> = Fin v" using n v(1) by simp
  finally have mx: "reduce_max (replicate (prod_list s) (Fin v)) = Fin v"
    using v(1) by simp
  show ?thesis
    using v by (simp add: normalize_heatmap_def const_tensor_def mx)
qed

lemma sum_list_const:
  assumes "\<And>x. x \<in> set xs \<Longrightarrow> f x = (v::real)"
  shows "(\<Sum>x\<leftarrow>xs. f x) = real (length xs) * v"
  using assms by (induction xs) (simp_all add: algebra_simps)

lemma reduce_mean_const:
  assumes "0 < b * h * w"
  shows "reduce_mean_012 (const_tensor [b, h, w, c] v) = Inr (const_tensor [c] v)"
proof -
  have inner: "(\<Sum>n\<leftarrow>[0..<b * h * w]. replicate (b * h * w * c) v ! (n * c + k)) = real (b * h * w) * v"
    if "k < c" for k
  proof -
    have "replicate (b * h * w * c) v ! (n * c + k) = v" if "n \<in> set [0..<b * h * w]" for n
    proof -
      have "n < b * h * w" using that by simp
      then have "Suc n * c \<le> b * h * w * c" by (intro mult_le_mono1) simp
      then have "n * c + k < b * h * w * c" using \<open>k < c\<close> by simp
      then show ?thesis by simp
    qed
    then show ?thesis using sum_list_const [of "[0..<b * h * w]" "\<lambda>n. replicate (b * h * w * c) v ! (n * c + k)" v]
      by simp
  qed
  have "map (\<lambda>k. (\<Sum>n\<leftarrow>[0..<b * h * w]. replicate (b * h * w * c) v ! (n * c + k)) / real (b * h * w)) [0..<c]
          = replicate c v"
    by (rule map_upt_const) (use assms inner in simp)
  then show ?thesis
    by (simp add: reduce_mean_012_def const_tensor_def mult.assoc)
qed

lemma ci_scenario:
  "channel_importance scenario_model () None None
     = Inr (const_tensor [1, 7, 7, 32] 1, const_tensor [32] (1 / 2))"
proof -
  have rm: "reduce_mean_012 (const_tensor [1, 7, 7, 32] (1 / 2)) = Inr (const_tensor [32] (1 / 2))"
    by (rule reduce_mean_const) simp
  show ?thesis
    unfolding channel_importance_def using rm
    by (simp add: forward_pass_def scenario_model_def find_last_conv_layer_def
      get_layer_def select_class_def index0_def tf_argmax_def)
qed

text \<open>
  Claim C4, as the code has it. For the all-ones feature map of shape \<open>(7, 7, 32)\<close>
  (with its batch axis of size 1) and the channel weights all 0.5, the per-pixel dot
  product is 32 times 0.5, that is 16, at every pixel; clipping changes nothing, and
  after the division by the maximum the heatmap is the 7 by 7 array of exactly 1.
  A classifier with such a feature map and gradient gets this heatmap from
  \<open>get_gradcam_heatmap\<close>.
\<close>

theorem end_to_end_scenario:
  "raw_heatmap (const_tensor [1, 7, 7, 32] 1) (const_tensor [32] (1 / 2)) = Inr (const_tensor [7, 7] 16)
   \<and> normalize_heatmap (const_tensor [7, 7] 16) = const_tensor [7, 7] (Fin 1)
   \<and> get_gradcam_heatmap scenario_model () None None = Inr (const_tensor [7, 7] (Fin 1))"
proof -
  have raw: "raw_heatmap (const_tensor [1, 7, 7, 32] 1) (const_tensor [32] (1 / 2))
               = Inr (const_tensor [7, 7] 16)"
    using raw_heatmap_const [of 1 7 7 32 1 "1 / 2"] by simp
  have norm: "normalize_heatmap (const_tensor [7, 7] 16) = const_tensor [7, 7] (Fin 1)"
    by (rule normalize_const) (simp_all add: float32_def float32_huge_def float32_tiny_def)
  have "get_gradcam_heatmap scenario_model () None None = Inr (const_tensor [7, 7] (Fin 1))"
    unfolding get_gradcam_heatmap_def ci_scenario
    by (simp only: bind_Inr prod.case raw norm)
  with raw norm show ?thesis by blast
qed

text \<open>The weighted sum is not 112 at every pixel, as the specification's scenario has it.\<close>

theorem end_to_end_scenario_counterexample:
  "raw_heatmap (const_tensor [1, 7, 7, 32] 1) (const_tensor [32] (1 / 2))
     \<noteq> Inr (const_tensor [7, 7] 112)"
proof -
  have raw: "raw_heatmap (const_tensor [1, 7, 7, 32] 1) (const_tensor [32] (1 / 2))
               = Inr (const_tensor [7, 7] 16)"
    using raw_heatmap_const [of 1 7 7 32 1 "1 / 2"] by simp
  show ?thesis unfolding raw by (simp add: const_tensor_def)
qed

section \<open>Properties of \<open>overlay_heatmap\<close>\<close>

subsection \<open>Auxiliary facts\<close>

lemma length_swap_first_third [simp]: "length (swap_first_third xs) = length xs"
  by (induction xs rule: swap_first_third.induct) simp_all

lemma length_concat_triples:
  "length (concat (map (\<lambda>v. case f v of (b, g, r) \<Rightarrow> [b, g, r]) xs)) = 3 * length xs"
  by (induction xs) (simp_all split: prod.splits)

lemma cv2_resize_shape:
  assumes "shape heatmap = [r, c]" "0 < r" "0 < c" "0 < w" "0 < h"
  shows "\<exists>t. cv2_resize heatmap (w, h) = Inr t \<and> shape t = [h, w] \<and> length (data t) = h * w"
  using assms by (simp add: cv2_resize_def)

lemma color_steps_shape:
  "shape (divide_scalar (as_float (cvtColor_BGR2RGB
      (applyColorMap (np_uint8 (times_scalar t k)) colormap))) k') = shape t @ [3]"
  "length (data (divide_scalar (as_float (cvtColor_BGR2RGB
      (applyColorMap (np_uint8 (times_scalar t k)) colormap))) k')) = 3 * length (data t)"
  by (simp_all add: np_uint8_def times_scalar_def applyColorMap_def cvtColor_BGR2RGB_def
      as_float_def divide_scalar_def length_concat_triples del: map_map)

lemma false_color_shape:
  assumes "shape heatmap = [r, c]" "0 < r" "0 < c" "0 < w" "0 < h"
  shows "\<exists>fc. false_color heatmap (w, h) colormap = Inr fc \<and> shape fc = [h, w, 3]
           \<and> length (data fc) = h * w * 3"
proof -
  obtain t where t: "cv2_resize heatmap (w, h) = Inr t" "shape t = [h, w]"
      "length (data t) = h * w"
    using cv2_resize_shape [OF assms] by blast
  show ?thesis
    unfolding false_color_def t(1) bind_Inr Let_def
    by (simp add: color_steps_shape t(2,3))
qed

lemma broadcast_shapes_same: "broadcast_shapes xs xs = Some xs"
  by (induction xs) simp_all

lemma ravel_unravel: "n < prod_list ds \<Longrightarrow> ravel ds (unravel ds n) = n"
proof (induction ds arbitrary: n)
  case Nil
  then show ?case by simp
next
  case (Cons d ds)
  have d: "0 < d" using Cons.prems by (cases d) simp_all
  have "n div d < prod_list ds"
    using Cons.prems d by (simp add: less_mult_imp_div_less mult.commute)
  then have ih: "ravel ds (unravel ds (n div d)) = n div d" by (rule Cons.IH)
  show ?case by (simp add: ih)
qed

lemma np_add_same_shape:
  assumes sh: "shape a = shape b" and wa: "well_formed a" and wb: "well_formed b"
  shows "np_add a b = Inr \<lparr>shape = shape a, data = map2 (+) (data a) (data b)\<rparr>"
proof -
  let ?rs = "rev (shape a)"
  have n: "prod_list ?rs = length (data a)" "prod_list ?rs = length (data b)"
    using sh wa wb by (simp_all add: well_formed_def)
  have "map (\<lambda>n. broadcast_get a ?rs n + broadcast_get b ?rs n) [0..<prod_list ?rs]
          = map2 (+) (data a) (data b)"
  proof (rule nth_equalityI)
    show "length (map (\<lambda>n. broadcast_get a ?rs n + broadcast_get b ?rs n) [0..<prod_list ?rs])
            = length (map2 (+) (data a) (data b))"
      using n by simp
  next
    fix i assume "i < length (map (\<lambda>n. broadcast_get a ?rs n + broadcast_get b ?rs n) [0..<prod_list ?rs])"
    then have i: "i < prod_list ?rs" by simp
    then have "ravel ?rs (unravel ?rs i) = i" by (rule ravel_unravel)
    then have "broadcast_get a ?rs i = data a ! i" "broadcast_get b ?rs i = data b ! i"
      using sh by (simp_all add: broadcast_get_def)
    then show "map (\<lambda>n. broadcast_get a ?rs n + broadcast_get b ?rs n) [0..<prod_list ?rs] ! i
                 = map2 (+) (data a) (data b) ! i"
      using i n by simp
  qed
  then show ?thesis
    using sh by (simp add: np_add_def broadcast_shapes_same)
qed

lemma blend_same_shape:
  assumes sh: "shape x = shape y" and wx: "well_formed x" and wy: "well_formed y"
  shows "np_add (times_scalar x alpha) (times_scalar y beta)
           = Inr \<lparr>shape = shape x,
                  data = map2 (\<lambda>u v. u * alpha + v * beta) (data x) (data y)\<rparr>"
proof -
  have "np_add (times_scalar x alpha) (times_scalar y beta)
          = Inr \<lparr>shape = shape (times_scalar x alpha),
                 data = map2 (+) (data (times_scalar x alpha)) (data (times_scalar y beta))\<rparr>"
    using assms by (intro np_add_same_shape) (simp_all add: times_scalar_def well_formed_def)
  also have "map2 (+) (data (times_scalar x alpha)) (data (times_scalar y beta))
               = map2 (\<lambda>u v. u * alpha + v * beta) (data x) (data y)"
    by (simp add: times_scalar_def zip_map_map split_def)
  finally show ?thesis by (simp add: times_scalar_def)
qed

lemma overlay_rgb:
  assumes img: "shape img = [h, w, 3]" "0 < h" "0 < w" "well_formed img"
      and hm: "shape heatmap = [r, c]" "0 < r" "0 < c"
      and fc: "false_color heatmap (w, h) colormap = Inr fc"
  shows "overlay_heatmap img heatmap alpha colormap
           = Inr \<lparr>shape = [h, w, 3],
                  data = map2 (\<lambda>u v. u * alpha + v * (1 - alpha)) (data fc)
                           (data (normalized_image img))\<rparr>"
proof -
  obtain fc' where fc': "false_color heatmap (w, h) colormap = Inr fc'" "shape fc' = [h, w, 3]"
      "length (data fc') = h * w * 3"
    using false_color_shape [OF hm \<open>0 < w\<close> \<open>0 < h\<close>] by blast
  with fc have fcs: "shape fc = [h, w, 3]" "length (data fc) = h * w * 3" by simp_all
  have len: "length (data img) = h * w * 3" using img by (simp add: well_formed_def)
  then have ne: "data img \<noteq> []" using img by auto
  have mx: "np_max img = Inr (Max (set (data img)))" using ne by (simp add: np_max_def)
  have nsh: "shape (normalized_image img) = [h, w, 3]"
    and nwf: "well_formed (normalized_image img)"
    using img by (simp_all add: normalized_image_def divide_scalar_def well_formed_def)
  have wfc: "well_formed fc" using fcs by (simp add: well_formed_def)
  have "np_add (times_scalar fc alpha) (times_scalar (normalized_image img) (1 - alpha))
          = Inr \<lparr>shape = shape fc,
                 data = map2 (\<lambda>u v. u * alpha + v * (1 - alpha)) (data fc)
                          (data (normalized_image img))\<rparr>"
    by (rule blend_same_shape) (simp_all add: fcs nsh nwf wfc)
  then show ?thesis
    by (simp add: overlay_heatmap_def img fc mx fcs normalized_image_def)
qed

lemma map2_left_zero:
  "length xs = length ys \<Longrightarrow> map2 (\<lambda>u v. u * 0 + v * (1 - 0)) xs ys = (ys :: real list)"
  by (induction xs ys rule: list_induct2) simp_all

lemma map2_right_zero:
  "length xs = length ys \<Longrightarrow> map2 (\<lambda>u v. u * 1 + v * (1 - 1)) xs ys = (xs :: real list)"
  by (induction xs ys rule: list_induct2) simp_all

lemma normalized_image_shape:
  "shape (normalized_image img) = shape img"
  "length (data (normalized_image img)) = length (data img)"
  by (simp_all add: normalized_image_def divide_scalar_def)

lemma overlay_alpha_0:
  assumes img: "shape img = [h, w, 3]" "0 < h" "0 < w" "well_formed img"
      and hm: "shape heatmap = [r, c]" "0 < r" "0 < c"
  shows "overlay_heatmap img heatmap 0 colormap = Inr (normalized_image img)"
proof -
  obtain fc where fc: "false_color heatmap (w, h) colormap = Inr fc" "shape fc = [h, w, 3]"
      "length (data fc) = h * w * 3"
    using false_color_shape [OF hm \<open>0 < w\<close> \<open>0 < h\<close>] by blast
  have len: "length (data fc) = length (data (normalized_image img))"
    using fc(3) img by (simp add: normalized_image_shape well_formed_def)
  have "overlay_heatmap img heatmap 0 colormap
          = Inr \<lparr>shape = [h, w, 3], data = data (normalized_image img)\<rparr>"
    using overlay_rgb [OF img hm fc(1), of 0] map2_left_zero [OF len] by simp
  moreover have "\<lparr>shape = [h, w, 3], data = data (normalized_image img)\<rparr> = normalized_image img"
    using img(1) by (simp add: normalized_image_shape)
  ultimately show ?thesis by simp
qed

lemma overlay_alpha_1:
  assumes img: "shape img = [h, w, 3]" "0 < h" "0 < w" "well_formed img"
      and hm: "shape heatmap = [r, c]" "0 < r" "0 < c"
  shows "overlay_heatmap img heatmap 1 colormap = false_color heatmap (w, h) colormap"
proof -
  obtain fc where fc: "false_color heatmap (w, h) colormap = Inr fc" "shape fc = [h, w, 3]"
      "length (data fc) = h * w * 3"
    using false_color_shape [OF hm \<open>0 < w\<close> \<open>0 < h\<close>] by blast
  have len: "length (data fc) = length (data (normalized_image img))"
    using fc(3) img by (simp add: normalized_image_shape well_formed_def)
  have "overlay_heatmap img heatmap 1 colormap = Inr \<lparr>shape = [h, w, 3], data = data fc\<rparr>"
    using overlay_rgb [OF img hm fc(1), of 1] map2_right_zero [OF len] by simp
  moreover have "\<lparr>shape = [h, w, 3], data = data fc\<rparr> = fc"
    using fc(2) by simp
  ultimately show ?thesis using fc(1) by simp
qed

lemma img_facts:
  "shape \<lparr>shape = [1, 1, 3], data = [a, b, c :: real]\<rparr> = [1, 1, 3]"
  "well_formed \<lparr>shape = [1, 1, 3], data = [a, b, c :: real]\<rparr>"
  "shape \<lparr>shape = [1, 1], data = [v :: real]\<rparr> = [1, 1]"
  by (simp_all add: well_formed_def)

subsection \<open>Shape\<close>

text \<open>
  Claim C7. For every image with three axes and three channels, of height \<open>h\<close> and
  width \<open>w\<close>, and every heatmap with two axes, of any size \<open>r\<close> by \<open>c\<close>,
  \<open>overlay_heatmap\<close> returns an array of shape \<open>(h, w, 3)\<close>: the height and the
  width of the image, whatever the resolution of the heatmap and the value of
  \<open>alpha\<close>.
\<close>

theorem overlay_keeps_height_and_width:
  assumes img: "shape img = [h, w, 3]" "0 < h" "0 < w" "well_formed img"
      and hm: "shape heatmap = [r, c]" "0 < r" "0 < c"
  shows "\<exists>out. overlay_heatmap img heatmap alpha colormap = Inr out
           \<and> shape out = [h, w, 3] \<and> well_formed out"
proof -
  obtain fc where fc: "false_color heatmap (w, h) colormap = Inr fc" "shape fc = [h, w, 3]"
      "length (data fc) = h * w * 3"
    using false_color_shape [OF hm \<open>0 < w\<close> \<open>0 < h\<close>] by blast
  have len: "length (data (normalized_image img)) = h * w * 3"
    using img by (simp add: normalized_image_shape well_formed_def)
  show ?thesis
    using overlay_rgb [OF img hm fc(1), of alpha] fc(3) len by (simp add: well_formed_def)
qed

theorem overlay_keeps_height_and_width_witness:
  "well_formed \<lparr>shape = [1, 1, 3], data = [0.2, 0.4, 0.6 :: real]\<rparr>
   \<and> (\<exists>out. overlay_heatmap \<lparr>shape = [1, 1, 3], data = [0.2, 0.4, 0.6]\<rparr>
               \<lparr>shape = [1, 1], data = [1]\<rparr> 0.4 ramp = Inr out
          \<and> shape out = [1, 1, 3] \<and> well_formed out)"
  using overlay_keeps_height_and_width [OF img_facts(1) zero_less_one zero_less_one img_facts(2)
      img_facts(3) zero_less_one zero_less_one, of "0.2" "0.4" "0.6" 1 "0.4" ramp] img_facts(2) [of "0.2" "0.4" "0.6"]
  by simp

subsection \<open>The boundary values of \<open>alpha\<close>\<close>

text \<open>
  Claim C6, as the code has it. With \<open>alpha = 0\<close> the result is the image after lines
  86 and 87: the image itself when its maximum is at most 1, the image divided by 255
  when its maximum exceeds 1. With \<open>alpha = 1\<close> the result is the false-colour rendering
  of the resized heatmap, and it is the same for every image of the same shape.
\<close>

theorem overlay_boundary_alphas:
  assumes img: "shape img = [h, w, 3]" "0 < h" "0 < w" "well_formed img"
      and hm: "shape heatmap = [r, c]" "0 < r" "0 < c"
  shows "overlay_heatmap img heatmap 0 colormap = Inr (normalized_image img)
       \<and> (\<exists>fc. false_color heatmap (w, h) colormap = Inr fc
              \<and> overlay_heatmap img heatmap 1 colormap = Inr fc)
       \<and> (\<forall>img'. shape img' = shape img \<and> well_formed img' \<longrightarrow>
              overlay_heatmap img' heatmap 1 colormap = overlay_heatmap img heatmap 1 colormap)"
proof -
  obtain fc where fc: "false_color heatmap (w, h) colormap = Inr fc"
    using false_color_shape [OF hm \<open>0 < w\<close> \<open>0 < h\<close>] by blast
  have one: "overlay_heatmap img heatmap 1 colormap = false_color heatmap (w, h) colormap"
    using img hm by (rule overlay_alpha_1)
  have "overlay_heatmap img' heatmap 1 colormap = overlay_heatmap img heatmap 1 colormap"
    if "shape img' = shape img \<and> well_formed img'" for img'
  proof -
    have "overlay_heatmap img' heatmap 1 colormap = false_color heatmap (w, h) colormap"
      by (rule overlay_alpha_1 [where h = h and w = w and r = r and c = c])
        (use that img(1,2,3) hm in simp_all)
    then show ?thesis using one by simp
  qed
  then show ?thesis
    using overlay_alpha_0 [OF img hm] one fc by simp
qed

theorem overlay_boundary_alphas_witness:
  "well_formed \<lparr>shape = [1, 1, 3], data = [0.2, 0.4, 0.6 :: real]\<rparr>
   \<and> overlay_heatmap \<lparr>shape = [1, 1, 3], data = [0.2, 0.4, 0.6]\<rparr> \<lparr>shape = [1, 1], data = [1]\<rparr> 0 ramp
       = Inr \<lparr>shape = [1, 1, 3], data = [0.2, 0.4, 0.6]\<rparr>
   \<and> (\<exists>fc. false_color \<lparr>shape = [1, 1], data = [1]\<rparr> (1, 1) ramp = Inr fc
          \<and> overlay_heatmap \<lparr>shape = [1, 1, 3], data = [0.2, 0.4, 0.6]\<rparr>
               \<lparr>shape = [1, 1], data = [1]\<rparr> 1 ramp = Inr fc)"
proof -
  note t = overlay_boundary_alphas [OF img_facts(1) zero_less_one zero_less_one img_facts(2)
      img_facts(3) zero_less_one zero_less_one, of "0.2" "0.4" "0.6" 1 ramp]
  have n: "normalized_image \<lparr>shape = [1, 1, 3], data = [0.2, 0.4, 0.6]\<rparr>
             = \<lparr>shape = [1, 1, 3], data = [0.2, 0.4, 0.6]\<rparr>"
    by (simp add: normalized_image_def)
  show ?thesis
    using t [THEN conjunct1] t [THEN conjunct2, THEN conjunct1] img_facts(2) [of "0.2" "0.4" "0.6"]
    unfolding n by blast
qed

text \<open>
  With \<open>alpha = 0\<close> an image with values up to 255 does not come back unchanged: the
  pixel \<open>(255, 0, 0)\<close> comes back as \<open>(1, 0, 0)\<close>.
\<close>

theorem overlay_alpha_0_counterexample:
  "overlay_heatmap \<lparr>shape = [1, 1, 3], data = [255, 0, 0]\<rparr> \<lparr>shape = [1, 1], data = [0]\<rparr> 0 ramp
     = Inr \<lparr>shape = [1, 1, 3], data = [1, 0, 0]\<rparr>"
  using overlay_alpha_0 [OF img_facts(1) zero_less_one zero_less_one img_facts(2) img_facts(3)
      zero_less_one zero_less_one, of 255 0 0 0 ramp]
  by (simp add: normalized_image_def divide_scalar_def)

section \<open>Properties of \<open>overlay_heatmap\<close> on arrays in memory\<close>

lemma grows_return [intro!]: "grows (return_st x)"
  by (simp add: grows_def return_st_def)

lemma grows_raise [intro!]: "grows (raise_st e)"
  by (simp add: grows_def raise_st_def)

lemma grows_new [intro!]: "grows (new_array v)"
  by (simp add: grows_def new_array_def)

lemma grows_read [intro!]: "grows (read_array a)"
  by (simp add: grows_def read_array_def)

lemma grows_then [intro!]:
  assumes m: "grows m" and f: "\<And>x. grows (f x)"
  shows "grows (then_st m f)"
  unfolding grows_def
proof
  fix s
  obtain r s1 where ms: "m s = (r, s1)" by (cases "m s")
  obtain e1 where e1: "s1 = s @ e1" using m ms unfolding grows_def by (metis snd_conv)
  show "\<exists>ext. snd (then_st m f s) = s @ ext"
  proof (cases r)
    case (Inl e)
    then show ?thesis using ms e1 by (simp add: then_st_def)
  next
    case (Inr x)
    obtain e2 where "snd (f x s1) = s1 @ e2" using f [of x] unfolding grows_def by blast
    then show ?thesis using Inr ms e1 by (simp add: then_st_def)
  qed
qed

lemma grows_apply1 [intro!]: "grows (apply1 f a)"
  unfolding apply1_def by (auto split: sum.splits)

lemma grows_apply2 [intro!]: "grows (apply2 f a b)"
  unfolding apply2_def by (auto split: sum.splits)

lemma grows_blend: "grows (blend_st img heatmap5 alpha)"
  unfolding blend_st_def by (auto split: sum.splits)

lemma grows_false_color: "grows (false_color_st heatmap dsize colormap)"
  unfolding false_color_st_def by auto

lemma grows_overlay: "grows (overlay_heatmap_st img heatmap alpha colormap)"
  unfolding overlay_heatmap_st_def
  by (auto split: list.splits intro: grows_blend grows_false_color)

text \<open>
  The function on arrays in memory computes what \<open>overlay_heatmap\<close> computes on
  their contents: the same exception, or a reference to an array with the same value.
\<close>

lemma as_float_divide: "to_float (Float t) = t" "to_float (UInt8 u) = as_float u"
  by (simp_all add: to_float_def)

lemma overlay_st_value:
  assumes "img < length s" "heatmap < length s" "s ! heatmap = Float hm"
  shows "case overlay_heatmap (to_float (s ! img)) hm alpha colormap of
           Inl e \<Rightarrow> fst (overlay_heatmap_st img heatmap alpha colormap s) = Inl e
         | Inr out \<Rightarrow>
             (\<exists>r. fst (overlay_heatmap_st img heatmap alpha colormap s) = Inr r
                \<and> snd (overlay_heatmap_st img heatmap alpha colormap s) ! r = Float out)"
  using assms
  unfolding overlay_heatmap_st_def false_color_st_def blend_st_def apply1_def apply2_def
    then_st_def read_array_def new_array_def raise_st_def return_st_def
    overlay_heatmap_def false_color_def bind_def on_float_def on_uint8_def
  by (auto split: list.splits sum.splits simp: nth_append Let_def as_float_divide)

text \<open>
  Claim C10. After every call of \<open>overlay_heatmap\<close>, whether it returns or raises,
  the caller's image array and heatmap array, and every other array that existed before
  the call, hold what they held before it.
\<close>

theorem overlay_leaves_arguments:
  assumes "img < length s" "heatmap < length s"
  shows "snd (overlay_heatmap_st img heatmap alpha colormap s) ! img = s ! img
       \<and> snd (overlay_heatmap_st img heatmap alpha colormap s) ! heatmap = s ! heatmap
       \<and> take (length s) (snd (overlay_heatmap_st img heatmap alpha colormap s)) = s"
proof -
  obtain ext where "snd (overlay_heatmap_st img heatmap alpha colormap s) = s @ ext"
    using grows_overlay unfolding grows_def by blast
  then show ?thesis using assms by (simp add: nth_append)
qed

theorem overlay_leaves_arguments_witness:
  "(0::nat) < length [Float \<lparr>shape = [1, 1, 3], data = [255, 0, 0]\<rparr>,
                     Float \<lparr>shape = [1, 1], data = [1]\<rparr>]
   \<and> (1::nat) < length [Float \<lparr>shape = [1, 1, 3], data = [255, 0, 0]\<rparr>,
                       Float \<lparr>shape = [1, 1], data = [1]\<rparr>]
   \<and> snd (overlay_heatmap_st 0 1 0.4 ramp
            [Float \<lparr>shape = [1, 1, 3], data = [255, 0, 0]\<rparr>,
             Float \<lparr>shape = [1, 1], data = [1]\<rparr>]) ! 0
       = Float \<lparr>shape = [1, 1, 3], data = [255, 0, 0]\<rparr>
   \<and> snd (overlay_heatmap_st 0 1 0.4 ramp
            [Float \<lparr>shape = [1, 1, 3], data = [255, 0, 0]\<rparr>,
             Float \<lparr>shape = [1, 1], data = [1]\<rparr>]) ! 1
       = Float \<lparr>shape = [1, 1], data = [1]\<rparr>"
  using overlay_leaves_arguments [of 0 "[Float \<lparr>shape = [1, 1, 3], data = [255, 0, 0]\<rparr>,
             Float \<lparr>shape = [1, 1], data = [1]\<rparr>]" 1 "0.4" ramp]
  by simp

end
